theory Spec2Isabelle
  imports Complex_Main "HOL-Library.Word" "HOL-Library.AList" "HOL-Library.Sublist"
begin

unbundle bit_operations_syntax

section \<open>Python values, exceptions and the surrounding world\<close>

text \<open>
  The handlers of \<^verbatim>\<open>serve.py\<close> and \<^verbatim>\<open>inference.py\<close> are dynamically typed: the request
  body is whatever the JSON parser returned and the model's output is whatever the
  speech library returned. Both are values of \<open>pyval\<close>. A dictionary is an association
  list with distinct keys in insertion order; \<open>PObj\<close> is an object with the given
  attributes. A Python \<^verbatim>\<open>str\<close> is a \<open>string\<close>; a character above 127 stands for a
  non-ASCII code point. Floats are read as reals.
\<close>

datatype pyval =
    PNone
  | PBool bool
  | PInt int
  | PFloat real
  | PStr string
  | PList "pyval list"
  | PDict "(string \<times> pyval) list"
  | PObj "(string \<times> pyval) list"

datatype exn_class =
    AttributeError | TypeError | IndexError | KeyError | ValueError
  | BinasciiError | OSError | RequestException | BadRequest | ParamValidationError
  | ClientError | WaiterError | ModelError | ProfileNotFound

text \<open>An exception: its class and the text \<^verbatim>\<open>str(e)\<close> gives.\<close>

datatype exn = Exn exn_class string

fun str_exn :: "exn \<Rightarrow> string" where
  "str_exn (Exn c m) = m"

type_synonym byte = "8 word"

type_synonym disk = "string \<rightharpoonup> byte list"

text \<open>Truthiness, as \<^verbatim>\<open>if x:\<close> and \<^verbatim>\<open>not x\<close> test it.\<close>

fun truthy :: "pyval \<Rightarrow> bool" where
  "truthy PNone = False"
| "truthy (PBool b) = b"
| "truthy (PInt i) = (i \<noteq> 0)"
| "truthy (PFloat r) = (r \<noteq> 0)"
| "truthy (PStr s) = (s \<noteq> [])"
| "truthy (PList xs) = (xs \<noteq> [])"
| "truthy (PDict kvs) = (kvs \<noteq> [])"
| "truthy (PObj attrs) = True"

text \<open>\<^verbatim>\<open>x.get(key, default)\<close>: only a dictionary has the method.\<close>

fun dict_get :: "pyval \<Rightarrow> string \<Rightarrow> pyval \<Rightarrow> exn + pyval" where
  "dict_get (PDict kvs) k dflt = Inr (case map_of kvs k of Some v \<Rightarrow> v | None \<Rightarrow> dflt)"
| "dict_get v k dflt = Inl (Exn AttributeError ''object has no attribute get'')"

text \<open>
  \<^verbatim>\<open>x.name\<close> and \<^verbatim>\<open>hasattr(x, name)\<close> for the attribute names the handlers read
  (\<^verbatim>\<open>text\<close>, \<^verbatim>\<open>timestamp\<close>, \<^verbatim>\<open>word\<close>, \<^verbatim>\<open>start\<close>, \<^verbatim>\<open>end\<close>): none of the built-in
  values has one of them.
\<close>

fun getattr :: "pyval \<Rightarrow> string \<Rightarrow> exn + pyval" where
  "getattr (PObj attrs) name =
     (case map_of attrs name of
        Some v \<Rightarrow> Inr v
      | None \<Rightarrow> Inl (Exn AttributeError (''object has no attribute '' @ name)))"
| "getattr v name = Inl (Exn AttributeError (''object has no attribute '' @ name))"

fun hasattr :: "pyval \<Rightarrow> string \<Rightarrow> bool" where
  "hasattr (PObj attrs) name = (map_of attrs name \<noteq> None)"
| "hasattr v name = False"

text \<open>\<^verbatim>\<open>x[0]\<close>.\<close>

fun item0 :: "pyval \<Rightarrow> exn + pyval" where
  "item0 (PList []) = Inl (Exn IndexError ''list index out of range'')"
| "item0 (PList (x # xs)) = Inr x"
| "item0 (PStr []) = Inl (Exn IndexError ''string index out of range'')"
| "item0 (PStr (c # cs)) = Inr (PStr [c])"
| "item0 (PDict kvs) = Inl (Exn KeyError ''0'')"
| "item0 v = Inl (Exn TypeError ''object is not subscriptable'')"


text \<open>The elements a \<^verbatim>\<open>for\<close> clause runs over.\<close>

fun py_iter :: "pyval \<Rightarrow> exn + pyval list" where
  "py_iter (PList xs) = Inr xs"
| "py_iter (PStr s) = Inr (map (\<lambda>c. PStr [c]) s)"
| "py_iter (PDict kvs) = Inr (map (\<lambda>p. PStr (fst p)) kvs)"
| "py_iter v = Inl (Exn TypeError ''object is not iterable'')"

text \<open>\<^verbatim>\<open>s.startswith(p)\<close> and \<^verbatim>\<open>s.split(sep, 1)\<close> on strings, \<^verbatim>\<open>xs[1]\<close> on a list.\<close>

definition startswith :: "string \<Rightarrow> string \<Rightarrow> bool" where
  "startswith s p = (take (length p) s = p)"

definition split1 :: "char \<Rightarrow> string \<Rightarrow> string list" where
  "split1 sep s =
     (if sep \<in> set s
      then [takeWhile (\<lambda>c. c \<noteq> sep) s, tl (dropWhile (\<lambda>c. c \<noteq> sep) s)]
      else [s])"

fun item1 :: "'a list \<Rightarrow> exn + 'a" where
  "item1 (x # y # ys) = Inr y"
| "item1 xs = Inl (Exn IndexError ''list index out of range'')"

text \<open>A decimal digit, and a natural number written in decimal (\<^verbatim>\<open>%d\<close>).\<close>

definition digit :: "nat \<Rightarrow> char" where
  "digit n = ''0123456789'' ! (n mod 10)"

fun str_nat :: "nat \<Rightarrow> string" where
  "str_nat n = (if n < 10 then [digit n] else str_nat (n div 10) @ [digit n])"

declare str_nat.simps [simp del]

section \<open>Base64 (the standard library's \<^verbatim>\<open>base64\<close> and \<^verbatim>\<open>binascii\<close>)\<close>

text \<open>
  \<^verbatim>\<open>base64.b64encode\<close> is what the client uses to build a request, \<^verbatim>\<open>base64.b64decode\<close>
  (with \<^verbatim>\<open>validate=False\<close>) is what the server calls. Neither is code of this
  repository; both follow CPython's \<^verbatim>\<open>binascii\<close>: the encoder emits four characters
  for every three bytes and pads the last group with \<^verbatim>\<open>=\<close>, the decoder skips every
  character outside the alphabet, stops at a complete pad sequence and raises when the
  data characters do not fill their last group (with the count of data characters in the
  message when a single one is left over).
\<close>

definition b64_alphabet :: string where
  "b64_alphabet = ''ABCDEFGHIJKLMNOPQRSTUVWXYZabcdefghijklmnopqrstuvwxyz0123456789+/''"

definition table_b2a_base64 :: "byte \<Rightarrow> char" where
  "table_b2a_base64 w = b64_alphabet ! unat w"

fun index_of :: "'a \<Rightarrow> 'a list \<Rightarrow> nat option" where
  "index_of x [] = None"
| "index_of x (y # ys) = (if x = y then Some 0 else map_option Suc (index_of x ys))"

definition table_a2b_base64 :: "char \<Rightarrow> byte option" where
  "table_a2b_base64 ch = map_option of_nat (index_of ch b64_alphabet)"

fun b2a_base64 :: "byte list \<Rightarrow> string" where
  "b2a_base64 [] = []"
| "b2a_base64 [a] =
     [table_b2a_base64 (drop_bit 2 a),
      table_b2a_base64 (push_bit 4 (a AND 3)),
      CHR ''='', CHR ''='']"
| "b2a_base64 [a, b] =
     [table_b2a_base64 (drop_bit 2 a),
      table_b2a_base64 (push_bit 4 (a AND 3) OR drop_bit 4 b),
      table_b2a_base64 (push_bit 2 (b AND 15)),
      CHR ''='']"
| "b2a_base64 (a # b # c # rest) =
     [table_b2a_base64 (drop_bit 2 a),
      table_b2a_base64 (push_bit 4 (a AND 3) OR drop_bit 4 b),
      table_b2a_base64 (push_bit 2 (b AND 15) OR drop_bit 6 c),
      table_b2a_base64 (c AND 63)] @ b2a_base64 rest"

definition b64encode :: "byte list \<Rightarrow> string" where
  "b64encode bs = b2a_base64 bs"

text \<open>
  The decoder's loop: \<open>quad_pos\<close> is the position in the current group of four,
  \<open>leftchar\<close> the bits not yet written, \<open>pads\<close> the pad characters seen in a row,
  \<open>out\<close> the bytes written so far.
\<close>

fun a2b_loop :: "nat \<Rightarrow> byte \<Rightarrow> nat \<Rightarrow> byte list \<Rightarrow> string \<Rightarrow> exn + byte list" where
  "a2b_loop quad_pos leftchar pads out [] =
     (if quad_pos \<noteq> 0
      then (if quad_pos = 1
            then Inl (Exn BinasciiError
                   (''Invalid base64-encoded string: number of data characters ('' @
                    str_nat (length out div 3 * 4 + 1) @
                    '') cannot be 1 more than a multiple of 4''))
            else Inl (Exn BinasciiError ''Incorrect padding''))
      else Inr out)"
| "a2b_loop quad_pos leftchar pads out (ch # rest) =
     (if ch = CHR ''='' then
        (if quad_pos \<ge> 2 \<and> quad_pos + (pads + 1) \<ge> 4 then Inr out
         else a2b_loop quad_pos leftchar (if quad_pos \<ge> 2 then pads + 1 else pads) out rest)
      else
        (case table_a2b_base64 ch of
           None \<Rightarrow> a2b_loop quad_pos leftchar pads out rest
         | Some this_ch \<Rightarrow>
             (if quad_pos = 0 then a2b_loop 1 this_ch 0 out rest
              else if quad_pos = 1 then
                a2b_loop 2 (this_ch AND 15) 0
                  (out @ [push_bit 2 leftchar OR drop_bit 4 this_ch]) rest
              else if quad_pos = 2 then
                a2b_loop 3 (this_ch AND 3) 0
                  (out @ [push_bit 4 leftchar OR drop_bit 2 this_ch]) rest
              else
                a2b_loop 0 0 0 (out @ [push_bit 6 leftchar OR this_ch]) rest)))"

definition a2b_base64 :: "string \<Rightarrow> exn + byte list" where
  "a2b_base64 s = a2b_loop 0 0 0 [] s"

text \<open>A string argument is first encoded as ASCII, which fails on any other character.\<close>

definition b64decode :: "string \<Rightarrow> exn + byte list" where
  "b64decode s =
     (if \<exists>c \<in> set s. (of_char c :: nat) \<ge> 128
      then Inl (Exn ValueError ''string argument should contain only ASCII characters'')
      else a2b_base64 s)"

section \<open>Audio ingestion\<close>

text \<open>\<^verbatim>\<open>open(path, "rb").read()\<close> on the disk.\<close>

definition read_file :: "disk \<Rightarrow> string \<Rightarrow> exn + byte list" where
  "read_file d path =
     (case d path of
        None \<Rightarrow> Inl (Exn OSError (''No such file or directory: '' @ path))
      | Some bs \<Rightarrow> Inr bs)"

text \<open>
  The body of \<^verbatim>\<open>process_audio\<close> (\<^verbatim>\<open>serve.py\<close>), which \<^verbatim>\<open>predict_fn\<close>
  (\<^verbatim>\<open>inference.py\<close>) repeats inline: \<open>Inr None\<close> when no branch assigns
  \<^verbatim>\<open>audio_data\<close>, \<open>Inl e\<close> when a branch raises. \<open>fetch\<close> stands for
  \<^verbatim>\<open>requests.get\<close>, \<^verbatim>\<open>raise_for_status\<close> and \<^verbatim>\<open>.content\<close>.
\<close>

definition load_audio_str :: "disk \<Rightarrow> string \<Rightarrow> exn + byte list option" where
  "load_audio_str d audio_source =
     (if startswith audio_source ''data:'' then
        (case (if CHR '','' \<in> set audio_source
               then item1 (split1 (CHR '','') audio_source)
               else Inr audio_source) of
           Inl e \<Rightarrow> Inl e
         | Inr base64_data \<Rightarrow> map_sum id Some (b64decode base64_data))
      else if CHR ''/'' \<in> set audio_source \<or> CHR 0x5C \<in> set audio_source then
        map_sum id Some (read_file d audio_source)
      else map_sum id Some (b64decode audio_source))"

definition load_audio_data :: "pyval \<Rightarrow> exn + byte list option" where
  "load_audio_data v =
     (case v of
        PStr base64_data \<Rightarrow>
          (if startswith base64_data ''data:'' then
             (case item1 (split1 (CHR '','') base64_data) of
                Inl e \<Rightarrow> Inl e
              | Inr payload \<Rightarrow> map_sum id Some (b64decode payload))
           else map_sum id Some (b64decode base64_data))
      | _ \<Rightarrow> Inl (Exn AttributeError ''object has no attribute startswith''))"

definition load_audio_path ::
  "(string \<Rightarrow> exn + byte list) \<Rightarrow> disk \<Rightarrow> pyval \<Rightarrow> exn + byte list option" where
  "load_audio_path fetch d v =
     (case v of
        PStr path \<Rightarrow>
          (if startswith path ''http://'' \<or> startswith path ''https://''
           then map_sum id Some (fetch path)
           else map_sum id Some (read_file d path))
      | _ \<Rightarrow> Inl (Exn AttributeError ''object has no attribute startswith''))"

definition load_audio ::
  "(string \<Rightarrow> exn + byte list) \<Rightarrow> disk \<Rightarrow> pyval \<Rightarrow> exn + byte list option" where
  "load_audio fetch d audio_source =
     (case audio_source of
        PStr s \<Rightarrow> load_audio_str d s
      | PDict kvs \<Rightarrow>
          (case map_of kvs ''data'' of
             Some base64_data \<Rightarrow> load_audio_data base64_data
           | None \<Rightarrow>
               (case map_of kvs ''path'' of
                  Some path \<Rightarrow> load_audio_path fetch d path
                | None \<Rightarrow> Inr None))
      | _ \<Rightarrow> Inr None)"

text \<open>\<^verbatim>\<open>process_audio\<close>: every exception of the body is logged and becomes \<^verbatim>\<open>None\<close>.\<close>

definition process_audio :: "(string \<Rightarrow> exn + byte list) \<Rightarrow> disk \<Rightarrow> pyval \<Rightarrow> byte list option" where
  "process_audio fetch d audio_source =
     (case load_audio fetch d audio_source of Inl e \<Rightarrow> None | Inr audio_data \<Rightarrow> audio_data)"


section \<open>The request's surroundings\<close>

text \<open>
  What a request meets outside the handler: the two clock readings, the remote fetch,
  the name \<^verbatim>\<open>NamedTemporaryFile\<close> picks, the failures of creating that file, of
  writing bytes to the disk and of closing the file, the most bytes a single
  \<^verbatim>\<open>f.write\<close> can hand to the buffered file object without any of them being written
  to the disk (\<open>tmp_buffer\<close>, which depends on the interpreter and on the file system's
  block size), the failure of \<^verbatim>\<open>os.unlink\<close> on a file that is there,
  the speech model (\<^verbatim>\<open>model.transcribe\<close>, which sees the disk and the path it is
  given, and the \<^verbatim>\<open>timestamps\<close> flag), and \<^verbatim>\<open>str\<close> on a value that is not a string.
\<close>

record world =
  t_start :: real
  t_end :: real
  fetch :: "string \<Rightarrow> exn + byte list"
  tmp_name :: string
  tmp_create_err :: "exn option"
  tmp_write_err :: "exn option"
  tmp_close_err :: "exn option"
  tmp_buffer :: nat
  unlink_err :: "exn option"
  transcribe :: "disk \<Rightarrow> string \<Rightarrow> bool \<Rightarrow> exn + pyval"
  str_other :: "pyval \<Rightarrow> string"

text \<open>A Flask request: its content type header and what \<^verbatim>\<open>get_json()\<close> gives.\<close>

record request =
  content_type :: "string option"
  get_json :: "exn + pyval"

type_synonym response = "pyval \<times> nat"

definition model_id :: string where
  "model_id = ''nvidia/parakeet-tdt-0.6b-v2''"

definition py_str :: "world \<Rightarrow> pyval \<Rightarrow> string" where
  "py_str w v = (case v of PStr s \<Rightarrow> s | _ \<Rightarrow> str_other w v)"

text \<open>\<^verbatim>\<open>round(x, 3)\<close>: to the nearest thousandth, ties to the even one.\<close>

definition round_half_even :: "real \<Rightarrow> int" where
  "round_half_even x =
     (let f = \<lfloor>x\<rfloor> in
      if x - of_int f < 1 / 2 then f
      else if x - of_int f > 1 / 2 then f + 1
      else if even f then f else f + 1)"

definition py_round3 :: "real \<Rightarrow> real" where
  "py_round3 x = of_int (round_half_even (x * 1000)) / 1000"

text \<open>
  \<^verbatim>\<open>jsonify\<close> raises \<^verbatim>\<open>TypeError\<close> on a value that holds an object the JSON encoder
  does not know.
\<close>

fun serializable :: "pyval \<Rightarrow> bool" where
  "serializable (PList xs) = list_all serializable xs"
| "serializable (PDict kvs) = list_all serializable (map snd kvs)"
| "serializable (PObj attrs) = False"
| "serializable v = True"

definition jsonify :: "pyval \<Rightarrow> exn + pyval" where
  "jsonify v =
     (if serializable v then Inr v
      else Inl (Exn TypeError ''Object is not JSON serializable''))"

definition error_response :: "string \<Rightarrow> nat \<Rightarrow> exn + response" where
  "error_response msg status =
     (case jsonify (PDict [(''error'', PStr msg)]) of
        Inl e \<Rightarrow> Inl e
      | Inr body \<Rightarrow> Inr (body, status))"

section \<open>The temporary file\<close>

text \<open>
  \<^verbatim>\<open>with tempfile.NamedTemporaryFile(suffix=".wav", delete=False) as f:
      f.write(audio_data)
      temp_file = f.name\<close>
  The result is the exception raised (if any), the variable \<^verbatim>\<open>temp_file\<close> and the
  disk. The file is on disk as soon as it is created. The file object is buffered: a
  payload of at most \<open>tmp_buffer\<close> bytes stays in the buffer during \<^verbatim>\<open>f.write\<close>, so
  a disk that refuses the bytes is noticed only by the flush on leaving the block, after
  the variable was assigned; a longer payload is written to the disk by \<^verbatim>\<open>f.write\<close>
  itself, which then raises before the assignment. What a failed write or close leaves
  in the file is taken to be nothing.
\<close>

definition write_temp :: "world \<Rightarrow> disk \<Rightarrow> byte list \<Rightarrow> exn option \<times> string option \<times> disk" where
  "write_temp w d audio_data =
     (case tmp_create_err w of
        Some e \<Rightarrow> (Some e, None, d)
      | None \<Rightarrow>
          (case tmp_write_err w of
             Some e \<Rightarrow>
               (if tmp_buffer w < length audio_data
                then (Some e, None, d(tmp_name w \<mapsto> []))
                else (Some e, Some (tmp_name w), d(tmp_name w \<mapsto> [])))
           | None \<Rightarrow>
               (case tmp_close_err w of
                  Some e \<Rightarrow> (Some e, Some (tmp_name w), d(tmp_name w \<mapsto> []))
                | None \<Rightarrow> (None, Some (tmp_name w), d(tmp_name w \<mapsto> audio_data)))))"

text \<open>
  \<^verbatim>\<open>os.unlink(path)\<close> raises on a file that is not there; on one that is there it
  removes it, or raises and leaves it when the system refuses.
\<close>

definition unlink :: "world \<Rightarrow> disk \<Rightarrow> string \<Rightarrow> exn + disk" where
  "unlink w d path =
     (if d path = None then Inl (Exn OSError (''No such file or directory: '' @ path))
      else (case unlink_err w of
              Some e \<Rightarrow> Inl e
            | None \<Rightarrow> Inr (d(path := None))))"

section \<open>The HTTP handler (\<^verbatim>\<open>serve.py\<close>)\<close>

text \<open>A comprehension over a list stops at the first element that raises.\<close>

fun map_exn :: "('a \<Rightarrow> exn + 'b) \<Rightarrow> 'a list \<Rightarrow> exn + 'b list" where
  "map_exn f [] = Inr []"
| "map_exn f (x # xs) =
     (case f x of
        Inl e \<Rightarrow> Inl e
      | Inr y \<Rightarrow> (case map_exn f xs of Inl e \<Rightarrow> Inl e | Inr ys \<Rightarrow> Inr (y # ys)))"

text \<open>\<^verbatim>\<open>{"word": w.word, "start": w.start, "end": w.end}\<close>\<close>

definition word_entry :: "pyval \<Rightarrow> exn + pyval" where
  "word_entry w =
     (case getattr w ''word'' of
        Inl e \<Rightarrow> Inl e
      | Inr a \<Rightarrow>
          (case getattr w ''start'' of
             Inl e \<Rightarrow> Inl e
           | Inr b \<Rightarrow>
               (case getattr w ''end'' of
                  Inl e \<Rightarrow> Inl e
                | Inr c \<Rightarrow> Inr (PDict [(''word'', a), (''start'', b), (''end'', c)]))))"

text \<open>
  \<^verbatim>\<open>[... for w in output[0].timestamp.get("word", [])]
      if hasattr(output[0], 'timestamp') and output[0].timestamp else []\<close>
\<close>

definition timestamp_words :: "pyval \<Rightarrow> exn + pyval list" where
  "timestamp_words o0 =
     (if hasattr o0 ''timestamp'' \<and>
         (case getattr o0 ''timestamp'' of Inl e \<Rightarrow> False | Inr ts \<Rightarrow> truthy ts)
      then
        (case getattr o0 ''timestamp'' of
           Inl e \<Rightarrow> Inl e
         | Inr ts \<Rightarrow>
             (case dict_get ts ''word'' (PList []) of
                Inl e \<Rightarrow> Inl e
              | Inr ws \<Rightarrow>
                  (case py_iter ws of
                     Inl e \<Rightarrow> Inl e
                   | Inr items \<Rightarrow> map_exn word_entry items)))
      else Inr [])"

text \<open>Lines 158 to 172: the model call and the \<^verbatim>\<open>result\<close> dictionary.\<close>

definition transcribe_result ::
  "world \<Rightarrow> disk \<Rightarrow> string \<Rightarrow> pyval \<Rightarrow> exn + (string \<times> pyval) list" where
  "transcribe_result w d temp_file timestamps =
     (if truthy timestamps then
        (case transcribe w d temp_file True of
           Inl e \<Rightarrow> Inl e
         | Inr output \<Rightarrow>
             (case item0 output of
                Inl e \<Rightarrow> Inl e
              | Inr o0 \<Rightarrow>
                  (case getattr o0 ''text'' of
                     Inl e \<Rightarrow> Inl e
                   | Inr text \<Rightarrow>
                       (case timestamp_words o0 of
                          Inl e \<Rightarrow> Inl e
                        | Inr words \<Rightarrow>
                            Inr [(''text'', text),
                                 (''timestamps'', PDict [(''word'', PList words)])]))))
      else
        (case transcribe w d temp_file False of
           Inl e \<Rightarrow> Inl e
         | Inr output \<Rightarrow>
             (case item0 output of
                Inl e \<Rightarrow> Inl e
              | Inr o0 \<Rightarrow>
                  (case (if hasattr o0 ''text'' then getattr o0 ''text''
                         else Inr (PStr (py_str w o0))) of
                     Inl e \<Rightarrow> Inl e
                   | Inr text \<Rightarrow> Inr [(''text'', text)]))))"

text \<open>Lines 174 to 176: the two fields every result gets.\<close>

definition finish_result :: "world \<Rightarrow> (string \<times> pyval) list \<Rightarrow> (string \<times> pyval) list" where
  "finish_result w result =
     AList.update ''model'' (PStr model_id)
       (AList.update ''processing_time'' (PFloat (py_round3 (t_end w - t_start w))) result)"

text \<open>Lines 150 to 180, from the temporary file to the 200 response.\<close>

definition invoke_transcribe ::
  "world \<Rightarrow> disk \<Rightarrow> pyval \<Rightarrow> byte list \<Rightarrow> (exn + response) \<times> string option \<times> disk" where
  "invoke_transcribe w d timestamps audio_data =
     (case write_temp w d audio_data of
        (Some e, temp_file, d') \<Rightarrow> (Inl e, temp_file, d')
      | (None, temp_file, d') \<Rightarrow>
          (case transcribe_result w d' (tmp_name w) timestamps of
             Inl e \<Rightarrow> (Inl e, temp_file, d')
           | Inr result \<Rightarrow>
               (case jsonify (PDict (finish_result w result)) of
                  Inl e \<Rightarrow> (Inl e, temp_file, d')
                | Inr body \<Rightarrow> (Inr (body, 200), temp_file, d'))))"

text \<open>
  The \<^verbatim>\<open>try\<close> block of \<^verbatim>\<open>invoke\<close>: what it returns or raises, the variable
  \<^verbatim>\<open>temp_file\<close> and the disk when it is left.
\<close>

definition invoke_try ::
  "world \<Rightarrow> request \<Rightarrow> disk \<Rightarrow> (exn + response) \<times> string option \<times> disk" where
  "invoke_try w req d =
     (if content_type req = Some ''application/json'' then
        (case get_json req of
           Inl e \<Rightarrow> (Inl e, None, d)
         | Inr input_data \<Rightarrow>
             (case dict_get input_data ''audio'' PNone of
                Inl e \<Rightarrow> (Inl e, None, d)
              | Inr audio_source \<Rightarrow>
                  (case dict_get input_data ''timestamps'' (PBool False) of
                     Inl e \<Rightarrow> (Inl e, None, d)
                   | Inr timestamps \<Rightarrow>
                       (case dict_get input_data ''language'' (PStr ''en'') of
                          Inl e \<Rightarrow> (Inl e, None, d)
                        | Inr language \<Rightarrow>
                            (if \<not> truthy audio_source
                             then (error_response ''Missing 'audio' field'' 400, None, d)
                             else
                               (case process_audio (fetch w) d audio_source of
                                  None \<Rightarrow>
                                    (error_response ''Failed to process audio data'' 400, None, d)
                                | Some audio_data \<Rightarrow>
                                    invoke_transcribe w d timestamps audio_data))))))
      else
        (error_response
           (''Unsupported content type: '' @
              (case content_type req of None \<Rightarrow> ''None'' | Some ct \<Rightarrow> ct)) 415,
         None, d))"

text \<open>
  The \<^verbatim>\<open>finally\<close> clause of \<^verbatim>\<open>invoke\<close>: the file is removed when the variable
  names one that exists; a failing removal is swallowed.
\<close>

definition invoke_finally :: "world \<Rightarrow> string option \<Rightarrow> disk \<Rightarrow> disk" where
  "invoke_finally w temp_file d =
     (case temp_file of
        None \<Rightarrow> d
      | Some name \<Rightarrow>
          (if name \<noteq> [] \<and> d name \<noteq> None
           then (case unlink w d name of Inl e \<Rightarrow> d | Inr d' \<Rightarrow> d')
           else d))"

text \<open>
  \<^verbatim>\<open>invoke\<close>: \<open>Inl\<close> in the result would be an exception leaving the handler;
  \<open>Inr\<close> is the response and its status.
\<close>

definition invoke :: "world \<Rightarrow> request \<Rightarrow> disk \<Rightarrow> (exn + response) \<times> disk" where
  "invoke w req d =
     (case invoke_try w req d of
        (outcome, temp_file, d') \<Rightarrow>
          ((case outcome of
              Inl e \<Rightarrow> error_response (str_exn e) 500
            | Inr resp \<Rightarrow> Inr resp),
           invoke_finally w temp_file d'))"

section \<open>The toolkit handler (\<^verbatim>\<open>inference.py\<close>)\<close>

text \<open>Lines 118 to 128: the timestamp output is passed on as the model gave it.\<close>

definition predict_result ::
  "world \<Rightarrow> disk \<Rightarrow> string \<Rightarrow> pyval \<Rightarrow> exn + (string \<times> pyval) list" where
  "predict_result w d temp_file timestamps =
     (if truthy timestamps then
        (case transcribe w d temp_file True of
           Inl e \<Rightarrow> Inl e
         | Inr output \<Rightarrow>
             (case item0 output of
                Inl e \<Rightarrow> Inl e
              | Inr o0 \<Rightarrow>
                  (case getattr o0 ''text'' of
                     Inl e \<Rightarrow> Inl e
                   | Inr text \<Rightarrow>
                       (case getattr o0 ''timestamp'' of
                          Inl e \<Rightarrow> Inl e
                        | Inr ts \<Rightarrow> Inr [(''text'', text), (''timestamps'', ts)]))))
      else
        (case transcribe w d temp_file False of
           Inl e \<Rightarrow> Inl e
         | Inr output \<Rightarrow>
             (case item0 output of
                Inl e \<Rightarrow> Inl e
              | Inr o0 \<Rightarrow>
                  (case (if hasattr o0 ''text'' then getattr o0 ''text'' else Inr o0) of
                     Inl e \<Rightarrow> Inl e
                   | Inr text \<Rightarrow> Inr [(''text'', text)]))))"

definition predict_transcribe ::
  "world \<Rightarrow> disk \<Rightarrow> pyval \<Rightarrow> byte list \<Rightarrow> (exn + pyval) \<times> string option \<times> disk" where
  "predict_transcribe w d timestamps audio_data =
     (case write_temp w d audio_data of
        (Some e, temp_file, d') \<Rightarrow> (Inl e, temp_file, d')
      | (None, temp_file, d') \<Rightarrow>
          (case predict_result w d' (tmp_name w) timestamps of
             Inl e \<Rightarrow> (Inl e, temp_file, d')
           | Inr result \<Rightarrow> (Inr (PDict (finish_result w result)), temp_file, d')))"

definition predict_try ::
  "world \<Rightarrow> pyval \<Rightarrow> disk \<Rightarrow> (exn + pyval) \<times> string option \<times> disk" where
  "predict_try w input_data d =
     (case dict_get input_data ''audio'' PNone of
        Inl e \<Rightarrow> (Inl e, None, d)
      | Inr audio_source \<Rightarrow>
          (case dict_get input_data ''language'' (PStr ''en'') of
             Inl e \<Rightarrow> (Inl e, None, d)
           | Inr language \<Rightarrow>
               (case dict_get input_data ''timestamps'' (PBool False) of
                  Inl e \<Rightarrow> (Inl e, None, d)
                | Inr timestamps \<Rightarrow>
                    (if \<not> truthy audio_source
                     then (Inr (PDict [(''error'', PStr ''Missing 'audio' field'')]), None, d)
                     else
                       (case load_audio (fetch w) d audio_source of
                          Inl e \<Rightarrow> (Inl e, None, d)
                        | Inr None \<Rightarrow>
                            (Inr (PDict [(''error'', PStr ''Failed to load audio'')]), None, d)
                        | Inr (Some audio_data) \<Rightarrow>
                            predict_transcribe w d timestamps audio_data)))))"

text \<open>
  \<^verbatim>\<open>predict_fn\<close>: the \<^verbatim>\<open>except\<close> clause turns an exception of the \<^verbatim>\<open>try\<close> block into
  an error dictionary; the \<^verbatim>\<open>finally\<close> clause removes the file without a guard of its
  own, so an exception of \<^verbatim>\<open>os.unlink\<close> leaves the function (\<open>Inl\<close>) in place of
  what the \<^verbatim>\<open>try\<close> block or the \<^verbatim>\<open>except\<close> clause returned.
\<close>

definition predict_fn :: "world \<Rightarrow> pyval \<Rightarrow> disk \<Rightarrow> (exn + pyval) \<times> disk" where
  "predict_fn w input_data d =
     (case predict_try w input_data d of
        (outcome, temp_file, d') \<Rightarrow>
          (let returned =
                 (case outcome of
                    Inl e \<Rightarrow> Inr (PDict [(''error'', PStr (str_exn e))])
                  | Inr result \<Rightarrow> Inr result)
           in (case temp_file of
                 None \<Rightarrow> (returned, d')
               | Some name \<Rightarrow>
                   (if name \<noteq> [] \<and> d' name \<noteq> None
                    then (case unlink w d' name of
                            Inl e \<Rightarrow> (Inl e, d')
                          | Inr d'' \<Rightarrow> (returned, d''))
                    else (returned, d')))))"

text \<open>Reading a response body.\<close>

definition body_get :: "pyval \<Rightarrow> string \<Rightarrow> pyval option" where
  "body_get body k = (case body of PDict kvs \<Rightarrow> map_of kvs k | _ \<Rightarrow> None)"

section \<open>The provisioning client (\<^verbatim>\<open>deploy_parakeet.py\<close>)\<close>

record datetime =
  year :: nat
  month :: nat
  day :: nat
  hour :: nat
  minute :: nat
  second :: nat

definition pad2 :: "nat \<Rightarrow> string" where
  "pad2 n = [digit (n div 10), digit n]"

definition pad4 :: "nat \<Rightarrow> string" where
  "pad4 n = [digit (n div 1000), digit (n div 100), digit (n div 10), digit n]"

text \<open>\<^verbatim>\<open>strftime("%Y-%m-%d-%H-%M-%S")\<close>, for a year of at most four digits.\<close>

definition strftime :: "datetime \<Rightarrow> string" where
  "strftime dt =
     pad4 (year dt) @ ''-'' @ pad2 (month dt) @ ''-'' @ pad2 (day dt) @ ''-'' @
     pad2 (hour dt) @ ''-'' @ pad2 (minute dt) @ ''-'' @ pad2 (second dt)"

record resource_names =
  dep_model_name :: string
  dep_endpoint_config_name :: string
  dep_endpoint_name :: string

text \<open>Lines 22 to 25 of \<^verbatim>\<open>deploy\<close>.\<close>

definition deploy_names :: "datetime \<Rightarrow> resource_names" where
  "deploy_names now =
     (let timestamp = strftime now in
      \<lparr> dep_model_name = ''parakeet-tdt-'' @ timestamp,
        dep_endpoint_config_name = ''parakeet-config-'' @ timestamp,
        dep_endpoint_name = ''parakeet-asr-'' @ timestamp \<rparr>)"







section \<open>Reading requests and responses\<close>

text \<open>
  The values \<^verbatim>\<open>input_data.get("audio")\<close> and \<^verbatim>\<open>input_data.get("timestamps", False)\<close>
  of a request whose body is the dictionary \<open>kvs\<close>.
\<close>

definition audio_of :: "(string \<times> pyval) list \<Rightarrow> pyval" where
  "audio_of kvs = (case map_of kvs ''audio'' of Some v \<Rightarrow> v | None \<Rightarrow> PNone)"

definition timestamps_of :: "(string \<times> pyval) list \<Rightarrow> pyval" where
  "timestamps_of kvs = (case map_of kvs ''timestamps'' of Some v \<Rightarrow> v | None \<Rightarrow> PBool False)"

text \<open>A response with its \<^verbatim>\<open>processing_time\<close> field left out, and a world with other clock readings.\<close>

definition without_time :: "pyval \<Rightarrow> pyval" where
  "without_time body =
     (case body of PDict kvs \<Rightarrow> PDict (AList.delete ''processing_time'' kvs) | _ \<Rightarrow> body)"

definition strip_response :: "exn + response \<Rightarrow> exn + response" where
  "strip_response r = map_sum id (\<lambda>(body, status). (without_time body, status)) r"

definition strip_result :: "exn + pyval \<Rightarrow> exn + pyval" where
  "strip_result r = map_sum id without_time r"

definition set_clock :: "real \<Rightarrow> real \<Rightarrow> world \<Rightarrow> world" where
  "set_clock a b w = w\<lparr>t_start := a, t_end := b\<rparr>"

text \<open>
  A request with a JSON body, and a sample world for the examples: nothing fails, the
  model hears two words.
\<close>

definition json_request :: "pyval \<Rightarrow> request" where
  "json_request body = \<lparr>content_type = Some ''application/json'', get_json = Inr body\<rparr>"

definition sample_output :: pyval where
  "sample_output =
     PList [PObj [(''text'', PStr ''hello world''),
                  (''timestamp'',
                   PDict [(''word'',
                           PList [PObj [(''word'', PStr ''hello''), (''start'', PFloat 0),
                                        (''end'', PFloat (1 / 2))],
                                  PObj [(''word'', PStr ''world''), (''start'', PFloat (1 / 2)),
                                        (''end'', PFloat 1)]])])]]"

definition sample_world :: world where
  "sample_world =
     \<lparr> t_start = 10, t_end = 12,
       fetch = (\<lambda>url. Inl (Exn RequestException ''unreachable'')),
       tmp_name = ''/tmp/tmpa1b2c3.wav'',
       tmp_create_err = None, tmp_write_err = None, tmp_close_err = None,
       tmp_buffer = 8192, unlink_err = None,
       transcribe = (\<lambda>d path ts. Inr sample_output),
       str_other = (\<lambda>v. ''<object>'') \<rparr>"


text \<open>The sample request with word timestamps, and a model that has no timestamps to give.\<close>

definition timed_request_body :: "(string \<times> pyval) list" where
  "timed_request_body = [(''audio'', PStr ''AAAA''), (''timestamps'', PBool True)]"

definition null_timestamp_world :: world where
  "null_timestamp_world =
     sample_world\<lparr>transcribe :=
       (\<lambda>d path ts. Inr (PList [PObj [(''text'', PStr ''hi''), (''timestamp'', PNone)]]))\<rparr>"

text \<open>
  A world whose disk is full: the temporary file is created, writing bytes to it fails.
  An audio payload of one mebibyte, and the request a client makes of it.
\<close>

definition full_disk_world :: world where
  "full_disk_world =
     sample_world\<lparr>tmp_write_err := Some (Exn OSError ''[Errno 28] No space left on device'')\<rparr>"

definition long_audio :: "byte list" where
  "long_audio = replicate 1048576 0"

definition long_audio_body :: "(string \<times> pyval) list" where
  "long_audio_body = [(''audio'', PDict [(''data'', PStr (b64encode long_audio))])]"

text \<open>A world where the temporary file cannot be removed.\<close>

definition quoted :: "string \<Rightarrow> string" where
  "quoted s = [CHR 0x27] @ s @ [CHR 0x27]"

definition locked_tmp_world :: world where
  "locked_tmp_world =
     sample_world\<lparr>unlink_err :=
       Some (Exn OSError (''[Errno 13] Permission denied: '' @ quoted ''/tmp/tmpa1b2c3.wav''))\<rparr>"

definition locked_failing_world :: world where
  "locked_failing_world =
     locked_tmp_world\<lparr>transcribe := (\<lambda>d path ts. Inl (Exn ModelError ''CUDA out of memory''))\<rparr>"

text \<open>A world whose clock is set back by two seconds while the request is served.\<close>

definition stepped_back_world :: world where
  "stepped_back_world = sample_world\<lparr>t_start := 12, t_end := 10\<rparr>"

text \<open>A world whose model raises.\<close>

definition failing_model_world :: world where
  "failing_model_world =
     sample_world\<lparr>transcribe := (\<lambda>d path ts. Inl (Exn ModelError ''CUDA out of memory''))\<rparr>"

text \<open>
  Reading a timestamp: its mask (every digit replaced by \<^verbatim>\<open>d\<close>) and the numbers its
  six digit groups spell.
\<close>

definition is_digit :: "char \<Rightarrow> bool" where
  "is_digit c = (c \<in> set ''0123456789'')"

definition mask :: "string \<Rightarrow> string" where
  "mask s = map (\<lambda>c. if is_digit c then CHR ''d'' else c) s"

definition digits_value :: "string \<Rightarrow> nat" where
  "digits_value s = foldl (\<lambda>a c. 10 * a + (of_char c - 48)) 0 s"

definition read_timestamp :: "string \<Rightarrow> nat list" where
  "read_timestamp s =
     map digits_value
       [take 4 s, take 2 (drop 5 s), take 2 (drop 8 s), take 2 (drop 11 s),
        take 2 (drop 14 s), take 2 (drop 17 s)]"





text \<open>
  The readings \<^verbatim>\<open>datetime.now()\<close> can give, with a year of four digits.
\<close>

definition is_datetime :: "datetime \<Rightarrow> bool" where
  "is_datetime dt =
     (1000 \<le> year dt \<and> year dt \<le> 9999 \<and> 1 \<le> month dt \<and> month dt \<le> 12 \<and>
      1 \<le> day dt \<and> day dt \<le> 31 \<and> hour dt < 24 \<and> minute dt < 60 \<and> second dt < 60)"

definition sample_time :: datetime where
  "sample_time = \<lparr>year = 2024, month = 1, day = 15, hour = 10, minute = 30, second = 45\<rparr>"
section \<open>Base64 round trip\<close>

lemma index_of_nth: "distinct xs \<Longrightarrow> n < length xs \<Longrightarrow> index_of (xs ! n) xs = Some n"
proof (induction xs arbitrary: n)
  case Nil then show ?case by simp
next
  case (Cons y ys)
  show ?case
  proof (cases n)
    case 0 then show ?thesis by simp
  next
    case (Suc m)
    with Cons.prems have "m < length ys" "distinct ys" "ys ! m \<noteq> y" by auto
    with Cons.IH[of m] Suc show ?thesis by simp
  qed
qed

lemma distinct_alphabet: "distinct b64_alphabet"
  by (simp add: b64_alphabet_def)

lemma length_alphabet: "length b64_alphabet = 64"
  by (simp add: b64_alphabet_def)

lemma a2b_b2a: "unat w < 64 \<Longrightarrow> table_a2b_base64 (table_b2a_base64 w) = Some w"
  by (simp add: table_a2b_base64_def table_b2a_base64_def index_of_nth distinct_alphabet length_alphabet)

lemma b2a_in_alphabet: "unat w < 64 \<Longrightarrow> table_b2a_base64 w \<in> set b64_alphabet"
  by (simp add: table_b2a_base64_def length_alphabet)

lemma alphabet_chars:
  "c \<in> set b64_alphabet \<Longrightarrow>
     c \<noteq> CHR ''='' \<and> c \<noteq> CHR '':'' \<and> c \<noteq> CHR '','' \<and> c \<noteq> CHR 0x5C \<and> (of_char c :: nat) < 128"
  by (auto simp add: b64_alphabet_def)

lemma m3: "(a::byte) AND 3 = take_bit 2 a"
  by (simp add: take_bit_eq_mask mask_eq_exp_minus_1)
lemma m15: "(a::byte) AND 15 = take_bit 4 a"
  by (simp add: take_bit_eq_mask mask_eq_exp_minus_1)
lemma m63: "(a::byte) AND 63 = take_bit 6 a"
  by (simp add: take_bit_eq_mask mask_eq_exp_minus_1)

lemma s2: "Suc (Suc (n - 2)) = (if 2 \<le> n then n else 2)" by auto

lemma lt64: "take_bit 6 x = x \<Longrightarrow> unat (x::byte) < 64"
proof -
  assume h: "take_bit 6 x = x"
  have "unat (take_bit 6 x) < 64"
    using take_bit_nat_less_exp[of 6 "unat x"] by (simp add: unsigned_take_bit_eq)
  with h show ?thesis by simp
qed

lemma sextet1: "unat (drop_bit 2 (a::byte)) < 64"
  by (rule lt64, rule bit_eqI) (auto simp add: bit_simps dest: bit_imp_le_length)

lemma sextet2: "unat (push_bit 4 ((a::byte) AND 3) OR drop_bit 4 b) < 64"
  unfolding m3 by (rule lt64, rule bit_eqI) (auto simp add: bit_simps dest: bit_imp_le_length)

lemma sextet3: "unat (push_bit 2 ((b::byte) AND 15) OR drop_bit 6 c) < 64"
  unfolding m15 by (rule lt64, rule bit_eqI) (auto simp add: bit_simps dest: bit_imp_le_length)

lemma sextet4: "unat ((c::byte) AND 63) < 64"
  unfolding m63 by (rule lt64) simp

lemma sextet2_last: "unat (push_bit 4 ((a::byte) AND 3)) < 64"
  unfolding m3 by (rule lt64, rule bit_eqI) (auto simp add: bit_simps dest: bit_imp_le_length)

lemma sextet3_last: "unat (push_bit 2 ((b::byte) AND 15)) < 64"
  unfolding m15 by (rule lt64, rule bit_eqI) (auto simp add: bit_simps dest: bit_imp_le_length)

lemmas sextets = sextet1 sextet2 sextet3 sextet4 sextet2_last sextet3_last

lemma byte1: "push_bit 2 (drop_bit 2 a) OR drop_bit 4 (push_bit 4 (a AND 3) OR drop_bit 4 b) = (a :: byte)"
  unfolding m3 by (rule bit_eqI) (auto simp add: bit_simps s2)

lemma byte2: "push_bit 4 ((push_bit 4 (a AND 3) OR drop_bit 4 b) AND 15) OR drop_bit 2 (push_bit 2 (b AND 15) OR drop_bit 6 c) = (b :: byte)"
  unfolding m3 m15 by (rule bit_eqI) (auto simp add: bit_simps s2)

lemma byte3: "push_bit 6 ((push_bit 2 (b AND 15) OR drop_bit 6 c) AND 3) OR (c AND 63) = (c :: byte)"
  unfolding m3 m15 m63 by (rule bit_eqI) (auto simp add: bit_simps s2)

lemma byte1_last: "push_bit 2 (drop_bit 2 a) OR drop_bit 4 (push_bit 4 (a AND 3)) = (a :: byte)"
  unfolding m3 by (rule bit_eqI) (auto simp add: bit_simps s2)

lemma byte2_last: "push_bit 4 ((push_bit 4 (a AND 3) OR drop_bit 4 b) AND 15) OR drop_bit 2 (push_bit 2 (b AND 15)) = (b :: byte)"
  unfolding m3 m15 by (rule bit_eqI) (auto simp add: bit_simps s2)

text \<open>One step of the decoder on a character of the alphabet.\<close>

lemma a2b_loop_data:
  assumes "unat w < 64"
  shows "a2b_loop q l p out (table_b2a_base64 w # rest) =
     (if q = 0 then a2b_loop 1 w 0 out rest
      else if q = 1 then a2b_loop 2 (w AND 15) 0 (out @ [push_bit 2 l OR drop_bit 4 w]) rest
      else if q = 2 then a2b_loop 3 (w AND 3) 0 (out @ [push_bit 4 l OR drop_bit 2 w]) rest
      else a2b_loop 0 0 0 (out @ [push_bit 6 l OR w]) rest)"
proof -
  have "table_b2a_base64 w \<noteq> CHR ''=''"
    using alphabet_chars[OF b2a_in_alphabet[OF assms]] by simp
  then show ?thesis
    by (simp add: a2b_b2a[OF assms])
qed

lemma a2b_data0:
  "unat w < 64 \<Longrightarrow> a2b_loop 0 l p out (table_b2a_base64 w # rest) = a2b_loop 1 w 0 out rest"
  by (simp add: a2b_loop_data del: a2b_loop.simps)

lemma a2b_data1:
  "unat w < 64 \<Longrightarrow> a2b_loop 1 l p out (table_b2a_base64 w # rest) =
     a2b_loop 2 (w AND 15) 0 (out @ [push_bit 2 l OR drop_bit 4 w]) rest"
  by (simp add: a2b_loop_data del: a2b_loop.simps)

lemma a2b_data2:
  "unat w < 64 \<Longrightarrow> a2b_loop 2 l p out (table_b2a_base64 w # rest) =
     a2b_loop 3 (w AND 3) 0 (out @ [push_bit 4 l OR drop_bit 2 w]) rest"
  by (simp add: a2b_loop_data del: a2b_loop.simps)

lemma a2b_data3:
  "unat w < 64 \<Longrightarrow> a2b_loop 3 l p out (table_b2a_base64 w # rest) =
     a2b_loop 0 0 0 (out @ [push_bit 6 l OR w]) rest"
  by (simp add: a2b_loop_data del: a2b_loop.simps)

lemma a2b_pad2: "a2b_loop 2 l 0 out (CHR ''='' # CHR ''='' # rest) = Inr out"
  by simp

lemma a2b_pad1: "a2b_loop 3 l 0 out (CHR ''='' # rest) = Inr out"
  by simp

lemma a2b_loop_b2a: "a2b_loop 0 l p out (b2a_base64 bs) = Inr (out @ bs)"
proof (induction bs arbitrary: l p out rule: b2a_base64.induct)
  case 1
  then show ?case by simp
next
  case (2 a)
  have "a2b_loop 0 l p out (b2a_base64 [a]) = Inr (out @ [a])"
    by (simp only: b2a_base64.simps a2b_data0[OF sextet1] a2b_data1[OF sextet2_last]
        byte1_last a2b_pad2)
  then show ?case .
next
  case (3 a b)
  have "a2b_loop 0 l p out (b2a_base64 [a, b]) = Inr ((out @ [a]) @ [b])"
    by (simp only: b2a_base64.simps a2b_data0[OF sextet1] a2b_data1[OF sextet2]
        a2b_data2[OF sextet3_last] byte1 byte2_last a2b_pad1)
  then show ?case by simp
next
  case (4 a b c rest)
  have "a2b_loop 0 l p out (b2a_base64 (a # b # c # rest)) =
        a2b_loop 0 0 0 (((out @ [a]) @ [b]) @ [c]) (b2a_base64 rest)"
    by (simp only: b2a_base64.simps append_Cons append_Nil a2b_data0[OF sextet1]
        a2b_data1[OF sextet2] a2b_data2[OF sextet3] a2b_data3[OF sextet4] byte1 byte2 byte3)
  then show ?case by (simp add: "4.IH")
qed

lemma b2a_base64_chars: "set (b2a_base64 bs) \<subseteq> insert (CHR ''='') (set b64_alphabet)"
  by (induction bs rule: b2a_base64.induct)
     (auto simp add: b2a_in_alphabet sextets simp del: push_bit_and)

lemma b64encode_chars:
  assumes "c \<in> set (b64encode bs)"
  shows "c \<noteq> CHR '':'' \<and> c \<noteq> CHR '','' \<and> c \<noteq> CHR 0x5C \<and> (of_char c :: nat) < 128"
proof -
  from assms b2a_base64_chars[of bs] have "c = CHR ''='' \<or> c \<in> set b64_alphabet"
    by (auto simp add: b64encode_def)
  then show ?thesis using alphabet_chars[of c] by auto
qed

lemma b64decode_b64encode: "b64decode (b64encode bs) = Inr bs"
proof -
  have "\<not> (\<exists>c \<in> set (b64encode bs). (of_char c :: nat) \<ge> 128)"
    using b64encode_chars[of _ bs] by (auto simp add: not_le)
  then show ?thesis
    by (simp add: b64decode_def a2b_base64_def a2b_loop_b2a[of 0 0 "[]"] b64encode_def)
qed


lemma startswith_set: "startswith s p \<Longrightarrow> set p \<subseteq> set s"
proof -
  assume "startswith s p"
  then have "p = take (length p) s" by (simp add: startswith_def)
  then have "set p = set (take (length p) s)" by simp
  then show ?thesis using set_take_subset[of "length p" s] by blast
qed

lemma b64encode_not_data_url: "\<not> startswith (b64encode b) ''data:''"
proof
  assume "startswith (b64encode b) ''data:''"
  then have "CHR '':'' \<in> set (b64encode b)"
    using startswith_set[of "b64encode b" "''data:''"] by auto
  then show False using b64encode_chars by blast
qed

lemma load_audio_str_data_url:
  "load_audio_str d (''data:audio/wav;base64,'' @ b64encode b) = Inr (Some b)"
  by (simp add: load_audio_str_def startswith_def split1_def b64decode_b64encode)

lemma load_audio_str_bare:
  assumes "CHR ''/'' \<notin> set (b64encode b)"
  shows "load_audio_str d (b64encode b) = Inr (Some b)"
proof -
  have "CHR 0x5C \<notin> set (b64encode b)" using b64encode_chars by blast
  with assms show ?thesis
    by (simp add: load_audio_str_def b64encode_not_data_url b64decode_b64encode)
qed

lemma load_audio_str_path:
  assumes "CHR ''/'' \<in> set (b64encode b)"
  shows "load_audio_str d (b64encode b) = map_sum id Some (read_file d (b64encode b))"
  using assms by (simp add: load_audio_str_def b64encode_not_data_url)

lemma load_audio_data_bare: "load_audio_data (PStr (b64encode b)) = Inr (Some b)"
  by (simp add: load_audio_data_def b64encode_not_data_url b64decode_b64encode)

text \<open>
  Claim C3, as the code has it. For every byte sequence \<open>b\<close>, audio ingestion (both
  \<^verbatim>\<open>process_audio\<close> and the inline code of \<^verbatim>\<open>predict_fn\<close>) gives back exactly
  \<open>b\<close> from the data URL \<^verbatim>\<open>data:audio/wav;base64,\<close> followed by the base64 text of
  \<open>b\<close>, and from the object form \<^verbatim>\<open>{"data": base64(b)}\<close>. From the bare base64
  string it gives back \<open>b\<close> when that text holds no \<^verbatim>\<open>/\<close>; a bare string with a
  \<^verbatim>\<open>/\<close> in it is taken for a file path, and what is returned is that file's
  content, or nothing when there is no such file.
\<close>

theorem audio_decode_roundtrip:
  "process_audio fetch_url d (PStr (''data:audio/wav;base64,'' @ b64encode b)) = Some b \<and>
   load_audio fetch_url d (PStr (''data:audio/wav;base64,'' @ b64encode b)) = Inr (Some b) \<and>
   (CHR ''/'' \<notin> set (b64encode b) \<longrightarrow>
      process_audio fetch_url d (PStr (b64encode b)) = Some b \<and>
      load_audio fetch_url d (PStr (b64encode b)) = Inr (Some b)) \<and>
   (CHR ''/'' \<in> set (b64encode b) \<longrightarrow>
      process_audio fetch_url d (PStr (b64encode b)) = d (b64encode b)) \<and>
   process_audio fetch_url d (PDict [(''data'', PStr (b64encode b))]) = Some b"
proof -
  have url: "load_audio fetch_url d (PStr (''data:audio/wav;base64,'' @ b64encode b)) = Inr (Some b)"
    by (simp only: load_audio_def pyval.case load_audio_str_data_url)
  have bare: "load_audio fetch_url d (PStr (b64encode b)) = Inr (Some b)"
    if "CHR ''/'' \<notin> set (b64encode b)"
    by (simp only: load_audio_def pyval.case load_audio_str_bare[OF that])
  have path: "process_audio fetch_url d (PStr (b64encode b)) = d (b64encode b)"
    if "CHR ''/'' \<in> set (b64encode b)"
    using that
    by (simp add: process_audio_def load_audio_def load_audio_str_path read_file_def
        split: option.splits)
  have data: "process_audio fetch_url d (PDict [(''data'', PStr (b64encode b))]) = Some b"
    by (simp add: process_audio_def load_audio_def load_audio_data_bare)
  show ?thesis
    using url bare path data by (simp add: process_audio_def)
qed

lemma b64encode_AAAA: "b64encode [0, 0, 0] = ''AAAA''"
  by (simp add: b64encode_def table_b2a_base64_def b64_alphabet_def)

lemma b64encode_slash: "b64encode [255] = ''/w==''"
  by (simp add: b64encode_def table_b2a_base64_def b64_alphabet_def)

text \<open>
  The round trip at the bytes \<open>0, 0, 0\<close> (base64 text \<^verbatim>\<open>AAAA\<close>), and the path reading
  at the byte \<open>255\<close> (base64 text \<^verbatim>\<open>/w==\<close>) on a disk that holds a file of that name.
\<close>

theorem audio_decode_roundtrip_witness:
  "CHR ''/'' \<notin> set (b64encode [0, 0, 0]) \<and>
   process_audio (\<lambda>url. Inl (Exn RequestException [])) Map.empty (PStr ''data:audio/wav;base64,AAAA'')
     = Some [0, 0, 0] \<and>
   process_audio (\<lambda>url. Inl (Exn RequestException [])) Map.empty (PStr ''AAAA'') = Some [0, 0, 0] \<and>
   CHR ''/'' \<in> set (b64encode [255]) \<and>
   process_audio (\<lambda>url. Inl (Exn RequestException [])) [''/w=='' \<mapsto> [1, 2]] (PStr ''/w=='') = Some [1, 2]"
  using audio_decode_roundtrip [of "\<lambda>url. Inl (Exn RequestException [])" Map.empty "[0, 0, 0]"]
    audio_decode_roundtrip [of "\<lambda>url. Inl (Exn RequestException [])" "[''/w=='' \<mapsto> [1, 2]]" "[255]"]
  by (simp add: b64encode_AAAA b64encode_slash)

text \<open>
  Claim C3 as stated fails for the bare base64 string: the single byte \<open>255\<close> is
  encoded as \<^verbatim>\<open>/w==\<close>, which is read as a path; on an empty disk nothing is decoded.
\<close>

theorem bare_base64_roundtrip_counterexample:
  "process_audio (\<lambda>url. Inl (Exn RequestException [])) Map.empty (PStr (b64encode [255])) = None \<and>
   load_audio (\<lambda>url. Inl (Exn RequestException [])) Map.empty (PStr (b64encode [255])) \<noteq> Inr (Some [255])"
  by (simp add: b64encode_slash process_audio_def load_audio_def load_audio_str_def
      startswith_def read_file_def)
section \<open>Facts about the handlers\<close>

lemma error_response_eq: "error_response msg status = Inr (PDict [(''error'', PStr msg)], status)"
  by (simp add: error_response_def jsonify_def)

lemma invoke_try_json:
  assumes "content_type req = Some ''application/json''" and "get_json req = Inr (PDict kvs)"
  shows "invoke_try w req d =
     (if \<not> truthy (audio_of kvs)
      then (Inr (PDict [(''error'', PStr ''Missing 'audio' field'')], 400), None, d)
      else (case process_audio (fetch w) d (audio_of kvs) of
              None \<Rightarrow> (Inr (PDict [(''error'', PStr ''Failed to process audio data'')], 400), None, d)
            | Some audio_data \<Rightarrow> invoke_transcribe w d (timestamps_of kvs) audio_data))"
  using assms
  by (simp add: invoke_try_def error_response_eq audio_of_def timestamps_of_def
      split: option.splits)

lemma predict_try_dict:
  "predict_try w (PDict kvs) d =
     (if \<not> truthy (audio_of kvs)
      then (Inr (PDict [(''error'', PStr ''Missing 'audio' field'')]), None, d)
      else (case load_audio (fetch w) d (audio_of kvs) of
              Inl e \<Rightarrow> (Inl e, None, d)
            | Inr None \<Rightarrow> (Inr (PDict [(''error'', PStr ''Failed to load audio'')]), None, d)
            | Inr (Some audio_data) \<Rightarrow> predict_transcribe w d (timestamps_of kvs) audio_data))"
  by (simp add: predict_try_def audio_of_def timestamps_of_def split: option.splits sum.splits)

lemma set_clock_fields [simp]:
  "fetch (set_clock a b w) = fetch w"
  "tmp_name (set_clock a b w) = tmp_name w"
  "tmp_create_err (set_clock a b w) = tmp_create_err w"
  "tmp_write_err (set_clock a b w) = tmp_write_err w"
  "tmp_close_err (set_clock a b w) = tmp_close_err w"
  "tmp_buffer (set_clock a b w) = tmp_buffer w"
  "unlink_err (set_clock a b w) = unlink_err w"
  "transcribe (set_clock a b w) = transcribe w"
  "str_other (set_clock a b w) = str_other w"
  "t_start (set_clock a b w) = a"
  "t_end (set_clock a b w) = b"
  by (simp_all add: set_clock_def)

lemma unlink_clock [simp]: "unlink (set_clock a b w) d name = unlink w d name"
  by (simp add: unlink_def)

lemma invoke_finally_clock [simp]:
  "invoke_finally (set_clock a b w) tf d = invoke_finally w tf d"
  by (auto simp add: invoke_finally_def split: option.splits)

lemma sample_unlink_err:
  "unlink_err sample_world = None"
  "unlink_err null_timestamp_world = None"
  "unlink_err full_disk_world = None"
  "unlink_err failing_model_world = None"
  by (simp_all add: sample_world_def null_timestamp_world_def full_disk_world_def
      failing_model_world_def)

lemma py_str_clock [simp]: "py_str (set_clock a b w) v = py_str w v"
  by (cases v) (simp_all add: py_str_def)

lemma write_temp_clock [simp]: "write_temp (set_clock a b w) d audio = write_temp w d audio"
  by (simp add: write_temp_def split: option.splits)

lemma transcribe_result_clock [simp]:
  "transcribe_result (set_clock a b w) d p ts = transcribe_result w d p ts"
  by (simp add: transcribe_result_def split: sum.splits)

lemma predict_result_clock [simp]:
  "predict_result (set_clock a b w) d p ts = predict_result w d p ts"
  by (simp add: predict_result_def)

text \<open>The two shapes of the result dictionary of \<^verbatim>\<open>invoke\<close>.\<close>

lemma transcribe_result_shape:
  assumes "transcribe_result w d p ts = Inr r"
  shows "(\<not> truthy ts \<and> (\<exists>t. r = [(''text'', t)])) \<or>
         (truthy ts \<and> (\<exists>t ws. r = [(''text'', t), (''timestamps'', PDict [(''word'', PList ws)])]))"
  using assms by (auto simp add: transcribe_result_def split: if_splits sum.splits)

lemma predict_result_shape:
  assumes "predict_result w d p ts = Inr r"
  shows "(\<not> truthy ts \<and> (\<exists>t. r = [(''text'', t)])) \<or>
         (truthy ts \<and> (\<exists>t x. r = [(''text'', t), (''timestamps'', x)]))"
  using assms by (auto simp add: predict_result_def split: if_splits sum.splits)

lemma finish_result_plain:
  "finish_result w [(''text'', t)] =
     [(''text'', t), (''processing_time'', PFloat (py_round3 (t_end w - t_start w))),
      (''model'', PStr model_id)]"
  by (simp add: finish_result_def)

lemma finish_result_timestamps:
  "finish_result w [(''text'', t), (''timestamps'', x)] =
     [(''text'', t), (''timestamps'', x),
      (''processing_time'', PFloat (py_round3 (t_end w - t_start w))),
      (''model'', PStr model_id)]"
  by (simp add: finish_result_def)

lemma invoke_transcribe_clock:
  "map_prod strip_response id (invoke_transcribe (set_clock a b w) d ts audio) =
   map_prod strip_response id (invoke_transcribe w d ts audio)"
proof (cases "write_temp w d audio")
  case (fields err tf d')
  show ?thesis
  proof (cases err)
    case (Some e)
    with fields show ?thesis by (simp add: invoke_transcribe_def)
  next
    case None
    show ?thesis
    proof (cases "transcribe_result w d' (tmp_name w) ts")
      case (Inl e)
      with fields None show ?thesis by (simp add: invoke_transcribe_def)
    next
      case (Inr r)
      from transcribe_result_shape[OF Inr] fields None Inr show ?thesis
        by (auto simp add: invoke_transcribe_def jsonify_def finish_result_plain
            finish_result_timestamps strip_response_def without_time_def)
    qed
  qed
qed

lemma predict_transcribe_clock:
  "map_prod strip_result id (predict_transcribe (set_clock a b w) d ts audio) =
   map_prod strip_result id (predict_transcribe w d ts audio)"
proof (cases "write_temp w d audio")
  case (fields err tf d')
  show ?thesis
  proof (cases err)
    case (Some e)
    with fields show ?thesis by (simp add: predict_transcribe_def)
  next
    case None
    show ?thesis
    proof (cases "predict_result w d' (tmp_name w) ts")
      case (Inl e)
      with fields None show ?thesis by (simp add: predict_transcribe_def)
    next
      case (Inr r)
      from predict_result_shape[OF Inr] fields None Inr show ?thesis
        by (auto simp add: predict_transcribe_def finish_result_plain
            finish_result_timestamps strip_result_def without_time_def)
    qed
  qed
qed


lemma invoke_try_clock:
  "map_prod strip_response id (invoke_try (set_clock a b w) req d) =
   map_prod strip_response id (invoke_try w req d)"
  by (simp add: invoke_try_def invoke_transcribe_clock split: sum.splits option.splits)

lemma predict_try_clock:
  "map_prod strip_result id (predict_try (set_clock a b w) input_data d) =
   map_prod strip_result id (predict_try w input_data d)"
  by (simp add: predict_try_def predict_transcribe_clock split: sum.splits option.splits)

lemma strip_handler:
  "strip_response (case outcome of Inl e \<Rightarrow> error_response (str_exn e) 500 | Inr resp \<Rightarrow> Inr resp) =
   (case strip_response outcome of Inl e \<Rightarrow> error_response (str_exn e) 500 | Inr resp \<Rightarrow> Inr resp)"
  by (cases outcome) (auto simp add: strip_response_def error_response_eq without_time_def)

lemma invoke_clock:
  "map_prod strip_response id (invoke (set_clock a b w) req d) =
   map_prod strip_response id (invoke w req d)"
proof -
  obtain o1 tf1 d1 where r1: "invoke_try (set_clock a b w) req d = (o1, tf1, d1)"
    by (cases "invoke_try (set_clock a b w) req d") auto
  obtain o2 tf2 d2 where r2: "invoke_try w req d = (o2, tf2, d2)"
    by (cases "invoke_try w req d") auto
  from invoke_try_clock[of a b w req d] r1 r2
  have "strip_response o1 = strip_response o2" "tf1 = tf2" "d1 = d2" by simp_all
  then show ?thesis
    by (simp add: invoke_def r1 r2 strip_handler)
qed

lemma strip_except:
  "strip_result (case outcome of Inl e \<Rightarrow> Inr (PDict [(''error'', PStr (str_exn e))]) | Inr result \<Rightarrow> Inr result) =
   (case strip_result outcome of Inl e \<Rightarrow> Inr (PDict [(''error'', PStr (str_exn e))]) | Inr result \<Rightarrow> Inr result)"
  by (cases outcome) (auto simp add: strip_result_def without_time_def)

lemma predict_fn_clock:
  "map_prod strip_result id (predict_fn (set_clock a b w) input_data d) =
   map_prod strip_result id (predict_fn w input_data d)"
proof -
  obtain o1 tf1 d1 where r1: "predict_try (set_clock a b w) input_data d = (o1, tf1, d1)"
    by (cases "predict_try (set_clock a b w) input_data d") auto
  obtain o2 tf2 d2 where r2: "predict_try w input_data d = (o2, tf2, d2)"
    by (cases "predict_try w input_data d") auto
  from predict_try_clock[of a b w input_data d] r1 r2
  have "strip_result o1 = strip_result o2" "tf1 = tf2" "d1 = d2" by simp_all
  then show ?thesis
    using strip_except[of o1] strip_except[of o2]
    by (auto simp add: predict_fn_def r1 r2 Let_def strip_result_def split: option.splits sum.splits)
qed

lemma invoke_fst:
  "fst (invoke w req d) =
     (case fst (invoke_try w req d) of
        Inl e \<Rightarrow> Inr (PDict [(''error'', PStr (str_exn e))], 500)
      | Inr resp \<Rightarrow> Inr resp)"
  by (cases "invoke_try w req d") (simp add: invoke_def error_response_eq split: sum.splits)

lemma invoke_try_not_dict:
  assumes "content_type req = Some ''application/json''" and "get_json req = Inr v"
    and "\<forall>kvs. v \<noteq> PDict kvs"
  shows "\<exists>e. invoke_try w req d = (Inl e, None, d)"
  using assms by (cases v) (simp_all add: invoke_try_def)

lemma invoke_transcribe_cases:
  "invoke_transcribe w d ts audio =
     (case write_temp w d audio of
        (Some e, tf, d') \<Rightarrow> (Inl e, tf, d')
      | (None, tf, d') \<Rightarrow>
          (case transcribe_result w d' (tmp_name w) ts of
             Inl e \<Rightarrow> (Inl e, tf, d')
           | Inr r \<Rightarrow>
               (if serializable (PDict (finish_result w r))
                then (Inr (PDict (finish_result w r), 200), tf, d')
                else (Inl (Exn TypeError ''Object is not JSON serializable''), tf, d'))))"
  by (simp add: invoke_transcribe_def jsonify_def split: prod.splits option.splits sum.splits)

lemma invoke_200:
  assumes "fst (invoke w req d) = Inr (body, 200)"
  shows "\<exists>kvs audio tf d' r.
           content_type req = Some ''application/json'' \<and> get_json req = Inr (PDict kvs) \<and>
           truthy (audio_of kvs) \<and> process_audio (fetch w) d (audio_of kvs) = Some audio \<and>
           write_temp w d audio = (None, tf, d') \<and>
           transcribe_result w d' (tmp_name w) (timestamps_of kvs) = Inr r \<and>
           serializable (PDict (finish_result w r)) \<and>
           body = PDict (finish_result w r)"
proof -
  from assms have itry: "fst (invoke_try w req d) = Inr (body, 200)"
    by (simp add: invoke_fst split: sum.splits)
  have ct: "content_type req = Some ''application/json''"
  proof (rule ccontr)
    assume "content_type req \<noteq> Some ''application/json''"
    then have "fst (invoke_try w req d) = Inr (PDict [(''error'', PStr (''Unsupported content type: '' @
              (case content_type req of None \<Rightarrow> ''None'' | Some ct \<Rightarrow> ct)))], 415)"
      by (simp add: invoke_try_def error_response_eq)
    with itry show False by simp
  qed
  obtain v where v: "get_json req = Inr v"
    using itry ct by (cases "get_json req") (simp_all add: invoke_try_def)
  obtain kvs where kvs: "v = PDict kvs"
    using invoke_try_not_dict[OF ct v, of w d] itry by fastforce
  note eq = invoke_try_json[OF ct v[unfolded kvs], of w d]
  have tr: "truthy (audio_of kvs)"
    using itry eq by (auto split: if_splits)
  obtain audio where audio: "process_audio (fetch w) d (audio_of kvs) = Some audio"
    using itry eq tr by (cases "process_audio (fetch w) d (audio_of kvs)") simp_all
  from itry eq tr audio
  have it: "fst (invoke_transcribe w d (timestamps_of kvs) audio) = Inr (body, 200)" by simp
  obtain err tf d' where wt: "write_temp w d audio = (err, tf, d')"
    by (cases "write_temp w d audio") auto
  have err: "err = None"
    using it wt by (cases err) (simp_all add: invoke_transcribe_cases)
  obtain r where r: "transcribe_result w d' (tmp_name w) (timestamps_of kvs) = Inr r"
    using it wt err
    by (cases "transcribe_result w d' (tmp_name w) (timestamps_of kvs)")
       (simp_all add: invoke_transcribe_cases)
  from it wt err r have "serializable (PDict (finish_result w r)) \<and> body = PDict (finish_result w r)"
    by (simp add: invoke_transcribe_cases split: if_splits)
  with ct v kvs tr audio wt err r show ?thesis by blast
qed

text \<open>Rounding.\<close>

lemma round_half_even_near: "\<bar>of_int (round_half_even x) - x\<bar> \<le> 1 / 2"
  using floor_correct[of x] by (auto simp add: round_half_even_def Let_def)

lemma round_half_even_nonneg: "0 \<le> x \<Longrightarrow> 0 \<le> round_half_even x"
proof -
  assume "0 \<le> x"
  then have "0 \<le> \<lfloor>x\<rfloor>" by simp
  then show ?thesis by (auto simp add: round_half_even_def Let_def)
qed

lemma py_round3_near: "\<bar>py_round3 x - x\<bar> \<le> 1 / 2000"
proof -
  have "\<bar>of_int (round_half_even (x * 1000)) - x * 1000\<bar> \<le> 1 / 2"
    by (rule round_half_even_near)
  then have "\<bar>(of_int (round_half_even (x * 1000)) - x * 1000) / 1000\<bar> \<le> (1 / 2) / 1000"
    by (simp add: abs_divide)
  then show ?thesis by (simp add: py_round3_def diff_divide_distrib)
qed

lemma py_round3_nonneg: "0 \<le> x \<Longrightarrow> 0 \<le> py_round3 x"
  using round_half_even_nonneg[of "x * 1000"] by (simp add: py_round3_def)

section \<open>Requests without usable audio\<close>

text \<open>
  Claim C10. A POST /invocations request (content type \<^verbatim>\<open>application/json\<close>, body a JSON
  object) whose \<^verbatim>\<open>audio\<close> field is present but falsy (the empty string, false, 0, an
  empty object or an empty list are all falsy) is answered with status 400 and the body
  \<^verbatim>\<open>{"error": "Missing 'audio' field"}\<close>, exactly as the same request without the
  field is; \<^verbatim>\<open>predict_fn\<close> returns the same error dictionary. The disk is untouched.
\<close>

theorem falsy_audio_is_missing:
  assumes "content_type req = Some ''application/json''"
    and "get_json req = Inr (PDict kvs)"
    and "map_of kvs ''audio'' = Some v"
    and "\<not> truthy v"
  shows "invoke w req d = (Inr (PDict [(''error'', PStr ''Missing 'audio' field'')], 400), d) \<and>
         invoke w req d = invoke w (req\<lparr>get_json := Inr (PDict (AList.delete ''audio'' kvs))\<rparr>) d \<and>
         predict_fn w (PDict kvs) d = (Inr (PDict [(''error'', PStr ''Missing 'audio' field'')]), d) \<and>
         predict_fn w (PDict kvs) d = predict_fn w (PDict (AList.delete ''audio'' kvs)) d"
proof -
  have a: "\<not> truthy (audio_of kvs)" using assms by (simp add: audio_of_def)
  have b: "\<not> truthy (audio_of (AList.delete ''audio'' kvs))"
    by (simp add: audio_of_def delete_conv)
  have i1: "invoke w req d = (Inr (PDict [(''error'', PStr ''Missing 'audio' field'')], 400), d)"
    using a by (simp add: invoke_def invoke_try_json[OF assms(1,2)] invoke_finally_def)
  have i2: "invoke w (req\<lparr>get_json := Inr (PDict (AList.delete ''audio'' kvs))\<rparr>) d =
      (Inr (PDict [(''error'', PStr ''Missing 'audio' field'')], 400), d)"
    using b assms(1)
    by (simp add: invoke_def invoke_try_json[of _ "AList.delete ''audio'' kvs"] invoke_finally_def)
  have p1: "predict_fn w (PDict kvs) d = (Inr (PDict [(''error'', PStr ''Missing 'audio' field'')]), d)"
    using a by (simp add: predict_fn_def predict_try_dict)
  have p2: "predict_fn w (PDict (AList.delete ''audio'' kvs)) d =
      (Inr (PDict [(''error'', PStr ''Missing 'audio' field'')]), d)"
    using b by (simp add: predict_fn_def predict_try_dict)
  show ?thesis using i1 i2 p1 p2 by simp
qed


text \<open>The five values the claim lists, each sent as the \<^verbatim>\<open>audio\<close> field.\<close>

theorem falsy_audio_is_missing_witness:
  "invoke sample_world (json_request (PDict [(''audio'', PStr [])])) Map.empty =
     (Inr (PDict [(''error'', PStr ''Missing 'audio' field'')], 400), Map.empty) \<and>
   invoke sample_world (json_request (PDict [(''audio'', PBool False)])) Map.empty =
     (Inr (PDict [(''error'', PStr ''Missing 'audio' field'')], 400), Map.empty) \<and>
   invoke sample_world (json_request (PDict [(''audio'', PInt 0)])) Map.empty =
     (Inr (PDict [(''error'', PStr ''Missing 'audio' field'')], 400), Map.empty) \<and>
   invoke sample_world (json_request (PDict [(''audio'', PDict [])])) Map.empty =
     (Inr (PDict [(''error'', PStr ''Missing 'audio' field'')], 400), Map.empty) \<and>
   invoke sample_world (json_request (PDict [(''audio'', PList [])])) Map.empty =
     (Inr (PDict [(''error'', PStr ''Missing 'audio' field'')], 400), Map.empty)"
  using
    falsy_audio_is_missing [where req = "json_request (PDict [(''audio'', PStr [])])"
      and kvs = "[(''audio'', PStr [])]" and v = "PStr []" and w = sample_world and d = Map.empty]
    falsy_audio_is_missing [where req = "json_request (PDict [(''audio'', PBool False)])"
      and kvs = "[(''audio'', PBool False)]" and v = "PBool False" and w = sample_world
      and d = Map.empty]
    falsy_audio_is_missing [where req = "json_request (PDict [(''audio'', PInt 0)])"
      and kvs = "[(''audio'', PInt 0)]" and v = "PInt 0" and w = sample_world and d = Map.empty]
    falsy_audio_is_missing [where req = "json_request (PDict [(''audio'', PDict [])])"
      and kvs = "[(''audio'', PDict [])]" and v = "PDict []" and w = sample_world and d = Map.empty]
    falsy_audio_is_missing [where req = "json_request (PDict [(''audio'', PList [])])"
      and kvs = "[(''audio'', PList [])]" and v = "PList []" and w = sample_world and d = Map.empty]
  by (simp add: json_request_def)

text \<open>
  Claim C1. A POST /invocations request (content type \<^verbatim>\<open>application/json\<close>, body a JSON
  object) whose \<^verbatim>\<open>audio\<close> field is missing, or present with a value that
  \<^verbatim>\<open>process_audio\<close> cannot turn into bytes, is answered with status 400 (hence never
  200) and a body that has an \<^verbatim>\<open>error\<close> key and no \<^verbatim>\<open>text\<close> key.
\<close>

theorem missing_or_undecodable_audio_400:
  assumes "content_type req = Some ''application/json''"
    and "get_json req = Inr (PDict kvs)"
    and "map_of kvs ''audio'' = None \<or>
         (\<exists>a. map_of kvs ''audio'' = Some a \<and> process_audio (fetch w) d a = None)"
  shows "\<exists>body. invoke w req d = (Inr (body, 400), d) \<and>
           body_get body ''error'' \<noteq> None \<and> body_get body ''text'' = None"
proof (cases "truthy (audio_of kvs)")
  case False
  then have "invoke w req d = (Inr (PDict [(''error'', PStr ''Missing 'audio' field'')], 400), d)"
    by (simp add: invoke_def invoke_try_json[OF assms(1,2)] invoke_finally_def)
  then show ?thesis by (simp add: body_get_def)
next
  case True
  with assms(3) have "process_audio (fetch w) d (audio_of kvs) = None"
    by (auto simp add: audio_of_def)
  with True have "invoke w req d =
      (Inr (PDict [(''error'', PStr ''Failed to process audio data'')], 400), d)"
    by (simp add: invoke_def invoke_try_json[OF assms(1,2)] invoke_finally_def)
  then show ?thesis by (simp add: body_get_def)
qed

lemma process_audio_one_char: "process_audio fetch_url d (PStr ''A'') = None"
  by (simp add: process_audio_def load_audio_def load_audio_str_def startswith_def
      b64decode_def a2b_base64_def table_a2b_base64_def b64_alphabet_def)

text \<open>
  A body without the field, and a body whose field is the single character \<^verbatim>\<open>A\<close>,
  which is not decodable base64.
\<close>

theorem missing_or_undecodable_audio_400_witness:
  "(\<exists>body. invoke sample_world (json_request (PDict [(''timestamps'', PBool True)])) Map.empty =
             (Inr (body, 400), Map.empty) \<and>
           body_get body ''error'' \<noteq> None \<and> body_get body ''text'' = None) \<and>
   (\<exists>body. invoke sample_world (json_request (PDict [(''audio'', PStr ''A'')])) Map.empty =
             (Inr (body, 400), Map.empty) \<and>
           body_get body ''error'' \<noteq> None \<and> body_get body ''text'' = None)"
  using
    missing_or_undecodable_audio_400 [where req = "json_request (PDict [(''timestamps'', PBool True)])"
      and kvs = "[(''timestamps'', PBool True)]" and w = sample_world and d = Map.empty]
    missing_or_undecodable_audio_400 [where req = "json_request (PDict [(''audio'', PStr ''A'')])"
      and kvs = "[(''audio'', PStr ''A'')]" and w = sample_world and d = Map.empty]
  by (simp add: json_request_def process_audio_one_char)

section \<open>The language field\<close>

lemma invoke_try_language:
  assumes "\<forall>k. k \<noteq> ''language'' \<longrightarrow> map_of kvs k = map_of kvs' k"
  shows "invoke_try w (req\<lparr>get_json := Inr (PDict kvs)\<rparr>) d =
         invoke_try w (req\<lparr>get_json := Inr (PDict kvs')\<rparr>) d"
proof -
  from assms have "map_of kvs ''audio'' = map_of kvs' ''audio''"
    and "map_of kvs ''timestamps'' = map_of kvs' ''timestamps''" by simp_all
  then show ?thesis by (simp add: invoke_try_def)
qed

lemma predict_try_language:
  assumes "\<forall>k. k \<noteq> ''language'' \<longrightarrow> map_of kvs k = map_of kvs' k"
  shows "predict_try w (PDict kvs) d = predict_try w (PDict kvs') d"
proof -
  from assms have "map_of kvs ''audio'' = map_of kvs' ''audio''"
    and "map_of kvs ''timestamps'' = map_of kvs' ''timestamps''" by simp_all
  then show ?thesis by (simp add: predict_try_def)
qed

text \<open>
  Claim C6. Two requests whose bodies agree on every key but \<^verbatim>\<open>language\<close> (which either
  may lack) get the same response and leave the same disk, whatever the two clocks read,
  once the measured \<^verbatim>\<open>processing_time\<close> is left out of the response; with the same clock
  readings the two responses are equal. This holds for \<^verbatim>\<open>invoke\<close> and for
  \<^verbatim>\<open>predict_fn\<close>.
\<close>

theorem language_is_ignored:
  assumes "\<forall>k. k \<noteq> ''language'' \<longrightarrow> map_of kvs k = map_of kvs' k"
  shows "map_prod strip_response id (invoke (set_clock a b w) (req\<lparr>get_json := Inr (PDict kvs)\<rparr>) d) =
         map_prod strip_response id (invoke (set_clock a' b' w) (req\<lparr>get_json := Inr (PDict kvs')\<rparr>) d) \<and>
         map_prod strip_result id (predict_fn (set_clock a b w) (PDict kvs) d) =
         map_prod strip_result id (predict_fn (set_clock a' b' w) (PDict kvs') d) \<and>
         invoke w (req\<lparr>get_json := Inr (PDict kvs)\<rparr>) d =
         invoke w (req\<lparr>get_json := Inr (PDict kvs')\<rparr>) d \<and>
         predict_fn w (PDict kvs) d = predict_fn w (PDict kvs') d"
proof -
  have i: "invoke v (req\<lparr>get_json := Inr (PDict kvs)\<rparr>) d =
           invoke v (req\<lparr>get_json := Inr (PDict kvs')\<rparr>) d" for v
    by (simp add: invoke_def invoke_try_language[OF assms])
  have p: "predict_fn v (PDict kvs) d = predict_fn v (PDict kvs') d" for v
    by (simp add: predict_fn_def predict_try_language[OF assms])
  show ?thesis
    by (simp only: invoke_clock predict_fn_clock i p)
qed

text \<open>English against French, with and without the field, at different times.\<close>

theorem language_is_ignored_witness:
  "map_prod strip_response id
     (invoke (set_clock 0 1 sample_world)
        (json_request (PDict [(''audio'', PStr ''AAAA''), (''language'', PStr ''en'')])) Map.empty) =
   map_prod strip_response id
     (invoke (set_clock 5 7 sample_world)
        (json_request (PDict [(''audio'', PStr ''AAAA''), (''language'', PStr ''fr'')])) Map.empty) \<and>
   predict_fn sample_world (PDict [(''audio'', PStr ''AAAA'')]) Map.empty =
   predict_fn sample_world (PDict [(''audio'', PStr ''AAAA''), (''language'', PStr ''fr'')]) Map.empty"
  using
    language_is_ignored [where kvs = "[(''audio'', PStr ''AAAA''), (''language'', PStr ''en'')]"
      and kvs' = "[(''audio'', PStr ''AAAA''), (''language'', PStr ''fr'')]"
      and req = "json_request PNone" and w = sample_world and d = Map.empty
      and a = 0 and b = 1 and a' = 5 and b' = 7]
    language_is_ignored [where kvs = "[(''audio'', PStr ''AAAA'')]"
      and kvs' = "[(''audio'', PStr ''AAAA''), (''language'', PStr ''fr'')]"
      and req = "json_request PNone" and w = sample_world and d = Map.empty
      and a = 0 and b = 1 and a' = 5 and b' = 7]
  by (simp add: json_request_def)

section \<open>The plain transcription response\<close>

lemma hasattr_getattr: "hasattr v name \<Longrightarrow> \<exists>x. getattr v name = Inr x"
  by (cases v) auto

lemma not_hasattr_getattr: "\<not> hasattr v name \<Longrightarrow> \<exists>e. getattr v name = Inl e"
  by (cases v) (auto split: option.splits)

lemma py_round3_thousandth: "\<exists>n::int. py_round3 x = of_int n / 1000"
  by (auto simp add: py_round3_def)

lemma transcribe_result_plain:
  assumes "\<not> truthy ts"
    and "transcribe w d p False = Inr output"
    and "item0 output = Inr o0"
    and "\<forall>v. getattr o0 ''text'' = Inr v \<longrightarrow> (\<exists>s. v = PStr s)"
  shows "\<exists>text. transcribe_result w d p ts = Inr [(''text'', PStr text)]"
proof (cases "hasattr o0 ''text''")
  case True
  then obtain x where x: "getattr o0 ''text'' = Inr x" using hasattr_getattr by blast
  with assms(4) obtain s where "x = PStr s" by blast
  with assms(1-3) True x show ?thesis by (simp add: transcribe_result_def)
next
  case False
  with assms(1-3) show ?thesis by (simp add: transcribe_result_def)
qed

text \<open>
  Claim C7, as the code has it. Take a request with a JSON object body whose audio is
  present and decodes, whose \<^verbatim>\<open>timestamps\<close> field is false or absent (or falsy), for
  which the temporary file is written and the model call returns a result whose first
  element has a string \<^verbatim>\<open>text\<close> attribute or no such attribute (the two shapes the
  speech library gives). Then the response has status 200 and exactly three fields:
  \<^verbatim>\<open>text\<close>, a string; \<^verbatim>\<open>processing_time\<close>, the difference of the two readings of
  \<^verbatim>\<open>time.time()\<close> rounded to a multiple of one thousandth and at most half a thousandth
  away from it; and \<^verbatim>\<open>model\<close>, the fixed identifier. There is no \<^verbatim>\<open>timestamps\<close> key.
  The \<^verbatim>\<open>processing_time\<close> is not negative when the second reading is not before the
  first.
\<close>

theorem plain_transcription_response:
  assumes "content_type req = Some ''application/json''"
    and "get_json req = Inr (PDict kvs)"
    and "truthy (audio_of kvs)"
    and "process_audio (fetch w) d (audio_of kvs) = Some audio"
    and "\<not> truthy (timestamps_of kvs)"
    and "write_temp w d audio = (None, tf, d')"
    and "transcribe w d' (tmp_name w) False = Inr output"
    and "item0 output = Inr o0"
    and "\<forall>v. getattr o0 ''text'' = Inr v \<longrightarrow> (\<exists>s. v = PStr s)"
  shows "(\<exists>text. fst (invoke w req d) =
            Inr (PDict [(''text'', PStr text),
                        (''processing_time'', PFloat (py_round3 (t_end w - t_start w))),
                        (''model'', PStr ''nvidia/parakeet-tdt-0.6b-v2'')], 200)) \<and>
         (t_start w \<le> t_end w \<longrightarrow> 0 \<le> py_round3 (t_end w - t_start w)) \<and>
         \<bar>py_round3 (t_end w - t_start w) - (t_end w - t_start w)\<bar> \<le> 1 / 2000 \<and>
         (\<exists>n::int. py_round3 (t_end w - t_start w) = of_int n / 1000)"
proof -
  obtain s where r: "transcribe_result w d' (tmp_name w) (timestamps_of kvs) = Inr [(''text'', PStr s)]"
    using transcribe_result_plain[OF assms(5,7,8,9)] by blast
  have "fst (invoke w req d) =
          Inr (PDict [(''text'', PStr s),
                      (''processing_time'', PFloat (py_round3 (t_end w - t_start w))),
                      (''model'', PStr ''nvidia/parakeet-tdt-0.6b-v2'')], 200)"
    using assms(3,4,6) r
    by (simp add: invoke_fst invoke_try_json[OF assms(1,2)] invoke_transcribe_cases
        finish_result_plain model_id_def)
  moreover have "0 \<le> py_round3 (t_end w - t_start w)" if "t_start w \<le> t_end w"
    using that by (simp add: py_round3_nonneg)
  ultimately show ?thesis
    using py_round3_near[of "t_end w - t_start w"] py_round3_thousandth[of "t_end w - t_start w"]
    by blast
qed

lemma process_audio_AAAA: "process_audio fetch_url d (PStr ''AAAA'') = Some [0, 0, 0]"
  by (simp add: process_audio_def load_audio_def load_audio_str_def startswith_def
      b64decode_def a2b_base64_def table_a2b_base64_def b64_alphabet_def)

text \<open>The sample request: three zero bytes, no timestamps, two seconds on the clock.\<close>

theorem plain_transcription_response_witness:
  "fst (invoke sample_world (json_request (PDict [(''audio'', PStr ''AAAA''), (''timestamps'', PBool False)])) Map.empty) =
     Inr (PDict [(''text'', PStr ''hello world''),
                 (''processing_time'', PFloat 2),
                 (''model'', PStr ''nvidia/parakeet-tdt-0.6b-v2'')], 200) \<and>
   0 \<le> py_round3 (t_end sample_world - t_start sample_world)"
proof -
  let ?kvs = "[(''audio'', PStr ''AAAA''), (''timestamps'', PBool False)]"
  have h1: "content_type (json_request (PDict ?kvs)) = Some ''application/json''"
    and h2: "get_json (json_request (PDict ?kvs)) = Inr (PDict ?kvs)"
    by (simp_all add: json_request_def)
  have h3: "truthy (audio_of ?kvs)" and h5: "\<not> truthy (timestamps_of ?kvs)"
    by (simp_all add: audio_of_def timestamps_of_def)
  have h4: "process_audio (fetch sample_world) Map.empty (audio_of ?kvs) = Some [0, 0, 0]"
    by (simp add: audio_of_def process_audio_AAAA)
  have h6: "write_temp sample_world Map.empty [0, 0, 0] =
      (None, Some ''/tmp/tmpa1b2c3.wav'', [''/tmp/tmpa1b2c3.wav'' \<mapsto> [0, 0, 0]])"
    by (simp add: write_temp_def sample_world_def)
  have h7: "transcribe sample_world [''/tmp/tmpa1b2c3.wav'' \<mapsto> [0, 0, 0]] (tmp_name sample_world) False
      = Inr sample_output"
    by (simp add: sample_world_def)
  have h8: "item0 sample_output = Inr (PObj [(''text'', PStr ''hello world''),
                  (''timestamp'',
                   PDict [(''word'',
                           PList [PObj [(''word'', PStr ''hello''), (''start'', PFloat 0),
                                        (''end'', PFloat (1 / 2))],
                                  PObj [(''word'', PStr ''world''), (''start'', PFloat (1 / 2)),
                                        (''end'', PFloat 1)]])])])"
    by (simp add: sample_output_def)
  have h9: "\<forall>v. getattr (PObj [(''text'', PStr ''hello world''),
                  (''timestamp'',
                   PDict [(''word'',
                           PList [PObj [(''word'', PStr ''hello''), (''start'', PFloat 0),
                                        (''end'', PFloat (1 / 2))],
                                  PObj [(''word'', PStr ''world''), (''start'', PFloat (1 / 2)),
                                        (''end'', PFloat 1)]])])]) ''text'' = Inr v \<longrightarrow> (\<exists>s. v = PStr s)"
    by simp
  have h10: "t_start sample_world \<le> t_end sample_world" by (simp add: sample_world_def)
  have t: "t_end sample_world - t_start sample_world = 2" by (simp add: sample_world_def)
  have r: "py_round3 2 = 2"
    by (simp add: py_round3_def round_half_even_def)
  from plain_transcription_response[OF h1 h2 h3 h4 h5 h6 h7 h8 h9] h10
  obtain s where
    "fst (invoke sample_world (json_request (PDict ?kvs)) Map.empty) =
       Inr (PDict [(''text'', PStr s),
                   (''processing_time'', PFloat (py_round3 (t_end sample_world - t_start sample_world))),
                   (''model'', PStr ''nvidia/parakeet-tdt-0.6b-v2'')], 200)"
    and nonneg: "0 \<le> py_round3 (t_end sample_world - t_start sample_world)"
    by blast
  moreover have "fst (invoke sample_world (json_request (PDict ?kvs)) Map.empty) =
       Inr (PDict [(''text'', PStr ''hello world''),
                   (''processing_time'', PFloat (py_round3 (t_end sample_world - t_start sample_world))),
                   (''model'', PStr ''nvidia/parakeet-tdt-0.6b-v2'')], 200)"
    using h3 h4 h5 h6
    by (simp add: invoke_fst invoke_try_json[OF h1 h2] invoke_transcribe_cases
        transcribe_result_def sample_world_def sample_output_def finish_result_plain model_id_def)
  ultimately show ?thesis using nonneg by (simp add: t r)
qed

text \<open>
  Claim C7 as stated fails where it says the \<^verbatim>\<open>processing_time\<close> is never negative:
  \<^verbatim>\<open>time.time()\<close> is the system clock, which can be set back between the two readings.
  With a first reading of 12 and a second of 10 the sample request is answered with
  status 200 and a \<^verbatim>\<open>processing_time\<close> of -2.
\<close>

theorem negative_processing_time_counterexample:
  "fst (invoke stepped_back_world
          (json_request (PDict [(''audio'', PStr ''AAAA''), (''timestamps'', PBool False)])) Map.empty) =
     Inr (PDict [(''text'', PStr ''hello world''),
                 (''processing_time'', PFloat (- 2)),
                 (''model'', PStr ''nvidia/parakeet-tdt-0.6b-v2'')], 200) \<and>
   \<not> (0 :: real) \<le> - 2"
proof -
  let ?kvs = "[(''audio'', PStr ''AAAA''), (''timestamps'', PBool False)]"
  have h1: "content_type (json_request (PDict ?kvs)) = Some ''application/json''"
    and h2: "get_json (json_request (PDict ?kvs)) = Inr (PDict ?kvs)"
    by (simp_all add: json_request_def)
  have h3: "truthy (audio_of ?kvs)" and h5: "\<not> truthy (timestamps_of ?kvs)"
    by (simp_all add: audio_of_def timestamps_of_def)
  have h4: "process_audio (fetch stepped_back_world) Map.empty (audio_of ?kvs) = Some [0, 0, 0]"
    by (simp add: audio_of_def process_audio_AAAA)
  have h6: "write_temp stepped_back_world Map.empty [0, 0, 0] =
      (None, Some ''/tmp/tmpa1b2c3.wav'', [''/tmp/tmpa1b2c3.wav'' \<mapsto> [0, 0, 0]])"
    by (simp add: write_temp_def stepped_back_world_def sample_world_def)
  have t: "t_end stepped_back_world - t_start stepped_back_world = - 2"
    by (simp add: stepped_back_world_def)
  have r: "py_round3 (- 2) = - 2"
    by (simp add: py_round3_def round_half_even_def)
  have "fst (invoke stepped_back_world (json_request (PDict ?kvs)) Map.empty) =
       Inr (PDict [(''text'', PStr ''hello world''),
                   (''processing_time'',
                    PFloat (py_round3 (t_end stepped_back_world - t_start stepped_back_world))),
                   (''model'', PStr ''nvidia/parakeet-tdt-0.6b-v2'')], 200)"
    using h3 h4 h5 h6
    by (simp add: invoke_fst invoke_try_json[OF h1 h2] invoke_transcribe_cases
        transcribe_result_def stepped_back_world_def sample_world_def sample_output_def
        finish_result_plain model_id_def)
  then show ?thesis by (simp add: t r)
qed

section \<open>Word timestamps\<close>

lemma word_entry_shape:
  assumes "word_entry x = Inr y"
  shows "\<exists>a b c. y = PDict [(''word'', a), (''start'', b), (''end'', c)] \<and>
           getattr x ''word'' = Inr a \<and> getattr x ''start'' = Inr b \<and> getattr x ''end'' = Inr c"
  using assms by (auto simp add: word_entry_def split: sum.splits)

lemma map_exn_Inr:
  "map_exn f xs = Inr ys \<Longrightarrow> list_all2 (\<lambda>x y. f x = Inr y) xs ys"
  by (induction xs arbitrary: ys) (auto split: sum.splits)

lemma map_exn_records:
  assumes "map_exn word_entry items = Inr ws"
  shows "\<forall>y \<in> set ws. \<exists>a b c. y = PDict [(''word'', a), (''start'', b), (''end'', c)]"
proof
  fix y assume "y \<in> set ws"
  with map_exn_Inr[OF assms] obtain x where "word_entry x = Inr y"
    by (auto simp add: list_all2_conv_all_nth in_set_conv_nth)
  then show "\<exists>a b c. y = PDict [(''word'', a), (''start'', b), (''end'', c)]"
    using word_entry_shape by blast
qed

lemma timestamp_words_absent:
  "\<not> hasattr o0 ''timestamp'' \<Longrightarrow> timestamp_words o0 = Inr []"
  by (simp add: timestamp_words_def)

lemma timestamp_words_falsy:
  "getattr o0 ''timestamp'' = Inr t \<Longrightarrow> \<not> truthy t \<Longrightarrow> timestamp_words o0 = Inr []"
  by (simp add: timestamp_words_def)

lemma getattr_hasattr: "getattr v name = Inr x \<Longrightarrow> hasattr v name"
  by (cases v) (auto split: option.splits)

lemma timestamp_words_no_word_key:
  "getattr o0 ''timestamp'' = Inr (PDict tkvs) \<Longrightarrow> tkvs \<noteq> [] \<Longrightarrow>
   map_of tkvs ''word'' = None \<Longrightarrow> timestamp_words o0 = Inr []"
  by (simp add: timestamp_words_def getattr_hasattr)

lemma timestamp_words_list:
  "getattr o0 ''timestamp'' = Inr (PDict tkvs) \<Longrightarrow> tkvs \<noteq> [] \<Longrightarrow>
   map_of tkvs ''word'' = Some (PList items) \<Longrightarrow> timestamp_words o0 = map_exn word_entry items"
  by (simp add: timestamp_words_def getattr_hasattr)

lemma timestamp_words_records:
  assumes "timestamp_words o0 = Inr ws"
  shows "\<forall>y \<in> set ws. \<exists>a b c. y = PDict [(''word'', a), (''start'', b), (''end'', c)]"
proof (cases "hasattr o0 ''timestamp'' \<and>
         (case getattr o0 ''timestamp'' of Inl e \<Rightarrow> False | Inr ts \<Rightarrow> truthy ts)")
  case False
  with assms have "ws = []" by (auto simp add: timestamp_words_def)
  then show ?thesis by simp
next
  case True
  with assms obtain items where "map_exn word_entry items = Inr ws"
    by (auto simp add: timestamp_words_def split: sum.splits)
  then show ?thesis by (rule map_exn_records)
qed

lemma transcribe_result_timestamps:
  assumes "transcribe_result w d p ts = Inr r" and "truthy ts"
  shows "\<exists>output o0 t ws. transcribe w d p True = Inr output \<and> item0 output = Inr o0 \<and>
           getattr o0 ''text'' = Inr t \<and> timestamp_words o0 = Inr ws \<and>
           r = [(''text'', t), (''timestamps'', PDict [(''word'', PList ws)])]"
  using assms by (auto simp add: transcribe_result_def split: sum.splits)

lemma predict_result_timestamps:
  assumes "predict_result w d p ts = Inr r" and "truthy ts"
  shows "\<exists>output o0 t raw. transcribe w d p True = Inr output \<and> item0 output = Inr o0 \<and>
           getattr o0 ''text'' = Inr t \<and> getattr o0 ''timestamp'' = Inr raw \<and>
           r = [(''text'', t), (''timestamps'', raw)]"
  using assms by (auto simp add: predict_result_def split: sum.splits)

lemma predict_fn_fst:
  assumes "fst (predict_fn w input_data d) = Inr x"
  shows "case fst (predict_try w input_data d) of
           Inl e \<Rightarrow> x = PDict [(''error'', PStr (str_exn e))]
         | Inr result \<Rightarrow> x = result"
  using assms
  by (cases "predict_try w input_data d")
     (auto simp add: predict_fn_def Let_def split: sum.splits option.splits if_splits)

lemma predict_transcribe_cases:
  "predict_transcribe w d ts audio =
     (case write_temp w d audio of
        (Some e, tf, d') \<Rightarrow> (Inl e, tf, d')
      | (None, tf, d') \<Rightarrow>
          (case predict_result w d' (tmp_name w) ts of
             Inl e \<Rightarrow> (Inl e, tf, d')
           | Inr r \<Rightarrow> (Inr (PDict (finish_result w r)), tf, d')))"
  by (simp add: predict_transcribe_def split: prod.splits option.splits sum.splits)

lemma predict_fn_success:
  assumes "fst (predict_fn w (PDict kvs) d) = Inr (PDict result)"
    and "map_of result ''error'' = None"
  shows "\<exists>audio tf d' r.
           truthy (audio_of kvs) \<and> load_audio (fetch w) d (audio_of kvs) = Inr (Some audio) \<and>
           write_temp w d audio = (None, tf, d') \<and>
           predict_result w d' (tmp_name w) (timestamps_of kvs) = Inr r \<and>
           result = finish_result w r"
proof -
  from predict_fn_fst[OF assms(1)] assms(2)
  have pt: "fst (predict_try w (PDict kvs) d) = Inr (PDict result)"
    by (auto split: sum.splits)
  note eq = predict_try_dict[of w kvs d]
  have tr: "truthy (audio_of kvs)"
    using pt eq assms(2) by (auto split: if_splits)
  obtain audio where audio: "load_audio (fetch w) d (audio_of kvs) = Inr (Some audio)"
    using pt eq tr assms(2)
    by (cases "load_audio (fetch w) d (audio_of kvs)") (auto split: option.splits)
  from pt eq tr audio
  have it: "fst (predict_transcribe w d (timestamps_of kvs) audio) = Inr (PDict result)" by simp
  obtain err tf d' where wt: "write_temp w d audio = (err, tf, d')"
    by (cases "write_temp w d audio") auto
  have err: "err = None"
    using it wt by (cases err) (simp_all add: predict_transcribe_cases)
  obtain r where r: "predict_result w d' (tmp_name w) (timestamps_of kvs) = Inr r"
    using it wt err
    by (cases "predict_result w d' (tmp_name w) (timestamps_of kvs)")
       (simp_all add: predict_transcribe_cases)
  from it wt err r have "result = finish_result w r"
    by (simp add: predict_transcribe_cases)
  with tr audio wt err r show ?thesis by blast
qed

text \<open>
  Claim C2, as the code has it. For a request answered with status 200 by \<^verbatim>\<open>invoke\<close>:
  when \<^verbatim>\<open>timestamps\<close> is false, absent or otherwise falsy, the response has no
  \<^verbatim>\<open>timestamps\<close> key; when it is true (or truthy), the response's \<^verbatim>\<open>timestamps\<close> is an
  object whose only field \<^verbatim>\<open>word\<close> is a list of \<^verbatim>\<open>{word, start, end}\<close> records, one
  for each word item of the model's timestamp output, in order, and the empty list when
  the model's result has no \<^verbatim>\<open>timestamp\<close> attribute, an empty one, or one without a
  \<^verbatim>\<open>word\<close> entry. For a call of \<^verbatim>\<open>predict_fn\<close> that returns a result without an
  \<^verbatim>\<open>error\<close> key: there is no \<^verbatim>\<open>timestamps\<close> key when the field is falsy, and when it
  is truthy the \<^verbatim>\<open>timestamps\<close> value is the model's \<^verbatim>\<open>timestamp\<close> attribute as it is.
\<close>

theorem timestamps_in_response:
  "(fst (invoke w req d) = Inr (body, 200) \<and> get_json req = Inr (PDict kvs) \<longrightarrow>
      (\<not> truthy (timestamps_of kvs) \<longrightarrow> body_get body ''timestamps'' = None) \<and>
      (truthy (timestamps_of kvs) \<longrightarrow>
         (\<exists>d' output o0 ws.
            transcribe w d' (tmp_name w) True = Inr output \<and> item0 output = Inr o0 \<and>
            timestamp_words o0 = Inr ws \<and>
            body_get body ''timestamps'' = Some (PDict [(''word'', PList ws)]) \<and>
            (\<forall>y \<in> set ws. \<exists>a b c. y = PDict [(''word'', a), (''start'', b), (''end'', c)]) \<and>
            (\<not> hasattr o0 ''timestamp'' \<longrightarrow> ws = []) \<and>
            (\<forall>t. getattr o0 ''timestamp'' = Inr t \<and> \<not> truthy t \<longrightarrow> ws = []) \<and>
            (\<forall>tkvs. getattr o0 ''timestamp'' = Inr (PDict tkvs) \<and> tkvs \<noteq> [] \<and>
                    map_of tkvs ''word'' = None \<longrightarrow> ws = []) \<and>
            (\<forall>tkvs items. getattr o0 ''timestamp'' = Inr (PDict tkvs) \<and> tkvs \<noteq> [] \<and>
                    map_of tkvs ''word'' = Some (PList items) \<longrightarrow>
                    list_all2 (\<lambda>x y. word_entry x = Inr y) items ws)))) \<and>
   (fst (predict_fn w (PDict kvs) d) = Inr (PDict result) \<and> map_of result ''error'' = None \<longrightarrow>
      (\<not> truthy (timestamps_of kvs) \<longrightarrow> map_of result ''timestamps'' = None) \<and>
      (truthy (timestamps_of kvs) \<longrightarrow>
         (\<exists>d' output o0 raw.
            transcribe w d' (tmp_name w) True = Inr output \<and> item0 output = Inr o0 \<and>
            getattr o0 ''timestamp'' = Inr raw \<and>
            map_of result ''timestamps'' = Some raw)))"
proof (intro conjI impI)
  assume h: "fst (invoke w req d) = Inr (body, 200) \<and> get_json req = Inr (PDict kvs)"
  then obtain kvs0 audio tf d' r where
      j: "get_json req = Inr (PDict kvs0)"
      and r: "transcribe_result w d' (tmp_name w) (timestamps_of kvs0) = Inr r"
      and b: "body = PDict (finish_result w r)"
    using invoke_200[of w req d body] by blast
  from h j have k: "kvs0 = kvs" by simp
  {
    assume f: "\<not> truthy (timestamps_of kvs)"
    with transcribe_result_shape[OF r] k obtain t where "r = [(''text'', t)]" by auto
    with b show "body_get body ''timestamps'' = None"
      by (simp add: body_get_def finish_result_plain)
  }
  {
    assume t: "truthy (timestamps_of kvs)"
    with transcribe_result_timestamps[OF r] k obtain out o0 tx ws where
        o: "transcribe w d' (tmp_name w) True = Inr out" "item0 out = Inr o0"
        and ws: "timestamp_words o0 = Inr ws"
        and rr: "r = [(''text'', tx), (''timestamps'', PDict [(''word'', PList ws)])]"
      by auto
    from b rr have bg: "body_get body ''timestamps'' = Some (PDict [(''word'', PList ws)])"
      by (simp add: body_get_def finish_result_timestamps)
    have l: "list_all2 (\<lambda>x y. word_entry x = Inr y) items ws"
      if "getattr o0 ''timestamp'' = Inr (PDict tkvs)" "tkvs \<noteq> []"
         "map_of tkvs ''word'' = Some (PList items)" for tkvs items
      using timestamp_words_list[OF that] ws map_exn_Inr[of word_entry items ws] by simp
    show "\<exists>d' output o0 ws.
            transcribe w d' (tmp_name w) True = Inr output \<and> item0 output = Inr o0 \<and>
            timestamp_words o0 = Inr ws \<and>
            body_get body ''timestamps'' = Some (PDict [(''word'', PList ws)]) \<and>
            (\<forall>y \<in> set ws. \<exists>a b c. y = PDict [(''word'', a), (''start'', b), (''end'', c)]) \<and>
            (\<not> hasattr o0 ''timestamp'' \<longrightarrow> ws = []) \<and>
            (\<forall>t. getattr o0 ''timestamp'' = Inr t \<and> \<not> truthy t \<longrightarrow> ws = []) \<and>
            (\<forall>tkvs. getattr o0 ''timestamp'' = Inr (PDict tkvs) \<and> tkvs \<noteq> [] \<and>
                    map_of tkvs ''word'' = None \<longrightarrow> ws = []) \<and>
            (\<forall>tkvs items. getattr o0 ''timestamp'' = Inr (PDict tkvs) \<and> tkvs \<noteq> [] \<and>
                    map_of tkvs ''word'' = Some (PList items) \<longrightarrow>
                    list_all2 (\<lambda>x y. word_entry x = Inr y) items ws)"
      apply (rule exI[of _ d'], rule exI[of _ out], rule exI[of _ o0], rule exI[of _ ws])
      using o ws bg timestamp_words_records[OF ws] timestamp_words_absent[of o0]
        timestamp_words_falsy[of o0] timestamp_words_no_word_key[of o0] l
      by auto
  }
next
  assume h: "fst (predict_fn w (PDict kvs) d) = Inr (PDict result) \<and> map_of result ''error'' = None"
  then obtain audio tf d' r where
      r: "predict_result w d' (tmp_name w) (timestamps_of kvs) = Inr r"
      and b: "result = finish_result w r"
    using predict_fn_success[of w kvs d result] by blast
  {
    assume f: "\<not> truthy (timestamps_of kvs)"
    with predict_result_shape[OF r] obtain t where "r = [(''text'', t)]" by auto
    with b show "map_of result ''timestamps'' = None"
      by (simp add: finish_result_plain)
  }
  {
    assume t: "truthy (timestamps_of kvs)"
    with predict_result_timestamps[OF r] obtain out o0 tx raw where
        o: "transcribe w d' (tmp_name w) True = Inr out" "item0 out = Inr o0"
           "getattr o0 ''timestamp'' = Inr raw"
        and rr: "r = [(''text'', tx), (''timestamps'', raw)]"
      by auto
    from b rr have "map_of result ''timestamps'' = Some raw"
      by (simp add: finish_result_timestamps)
    with o show "\<exists>d' output o0 raw.
            transcribe w d' (tmp_name w) True = Inr output \<and> item0 output = Inr o0 \<and>
            getattr o0 ''timestamp'' = Inr raw \<and>
            map_of result ''timestamps'' = Some raw"
      by blast
  }
qed

lemma invoke_sample_timestamps:
  "fst (invoke sample_world (json_request (PDict timed_request_body)) Map.empty) =
     Inr (PDict [(''text'', PStr ''hello world''),
                 (''timestamps'',
                  PDict [(''word'',
                          PList [PDict [(''word'', PStr ''hello''), (''start'', PFloat 0),
                                        (''end'', PFloat (1 / 2))],
                                 PDict [(''word'', PStr ''world''), (''start'', PFloat (1 / 2)),
                                        (''end'', PFloat 1)]])]),
                 (''processing_time'', PFloat (py_round3 (t_end sample_world - t_start sample_world))),
                 (''model'', PStr model_id)], 200)"
proof -
  have h1: "content_type (json_request (PDict timed_request_body)) = Some ''application/json''"
    and h2: "get_json (json_request (PDict timed_request_body)) = Inr (PDict timed_request_body)"
    by (simp_all add: json_request_def)
  have a: "audio_of timed_request_body = PStr ''AAAA''"
    and t: "timestamps_of timed_request_body = PBool True"
    by (simp_all add: audio_of_def timestamps_of_def timed_request_body_def)
  have wt: "write_temp sample_world Map.empty [0, 0, 0] =
      (None, Some (tmp_name sample_world), [tmp_name sample_world \<mapsto> [0, 0, 0]])"
    by (simp add: write_temp_def sample_world_def)
  have tw: "transcribe_result sample_world [tmp_name sample_world \<mapsto> [0, 0, 0]]
              (tmp_name sample_world) (PBool True) =
            Inr [(''text'', PStr ''hello world''),
                 (''timestamps'',
                  PDict [(''word'',
                          PList [PDict [(''word'', PStr ''hello''), (''start'', PFloat 0),
                                        (''end'', PFloat (1 / 2))],
                                 PDict [(''word'', PStr ''world''), (''start'', PFloat (1 / 2)),
                                        (''end'', PFloat 1)]])])]"
    by (simp add: transcribe_result_def sample_world_def sample_output_def timestamp_words_def
        word_entry_def)
  show ?thesis
    by (simp add: invoke_fst invoke_try_json[OF h1 h2] a t process_audio_AAAA
        invoke_transcribe_cases wt tw finish_result_timestamps)
qed


lemma load_audio_AAAA: "load_audio fetch_url d (PStr ''AAAA'') = Inr (Some [0, 0, 0])"
  by (simp add: load_audio_def load_audio_str_def startswith_def
      b64decode_def a2b_base64_def table_a2b_base64_def b64_alphabet_def)

lemma predict_sample_timestamps:
  "fst (predict_fn sample_world (PDict timed_request_body) Map.empty) =
     Inr (PDict [(''text'', PStr ''hello world''),
                 (''timestamps'',
                  PDict [(''word'',
                          PList [PObj [(''word'', PStr ''hello''), (''start'', PFloat 0),
                                       (''end'', PFloat (1 / 2))],
                                 PObj [(''word'', PStr ''world''), (''start'', PFloat (1 / 2)),
                                       (''end'', PFloat 1)]])]),
                 (''processing_time'', PFloat (py_round3 (t_end sample_world - t_start sample_world))),
                 (''model'', PStr model_id)])"
proof -
  have a: "audio_of timed_request_body = PStr ''AAAA''"
    and t: "timestamps_of timed_request_body = PBool True"
    by (simp_all add: audio_of_def timestamps_of_def timed_request_body_def)
  have wt: "write_temp sample_world Map.empty [0, 0, 0] =
      (None, Some (tmp_name sample_world), [tmp_name sample_world \<mapsto> [0, 0, 0]])"
    by (simp add: write_temp_def sample_world_def)
  have n: "tmp_name sample_world \<noteq> []" by (simp add: sample_world_def)
  have tw: "predict_result sample_world [tmp_name sample_world \<mapsto> [0, 0, 0]]
              (tmp_name sample_world) (PBool True) =
            Inr [(''text'', PStr ''hello world''),
                 (''timestamps'',
                  PDict [(''word'',
                          PList [PObj [(''word'', PStr ''hello''), (''start'', PFloat 0),
                                       (''end'', PFloat (1 / 2))],
                                 PObj [(''word'', PStr ''world''), (''start'', PFloat (1 / 2)),
                                       (''end'', PFloat 1)]])])]"
    by (simp add: predict_result_def sample_world_def sample_output_def)
  show ?thesis
    by (simp add: predict_fn_def predict_try_dict a t load_audio_AAAA
        predict_transcribe_cases wt tw finish_result_timestamps n unlink_def
        sample_unlink_err)
qed

text \<open>
  The sample request with \<^verbatim>\<open>timestamps\<close> true: \<^verbatim>\<open>invoke\<close> answers 200 with a list of
  records, \<^verbatim>\<open>predict_fn\<close> returns the model's timestamp dictionary.
\<close>

theorem timestamps_in_response_witness:
  "(\<exists>body ws.
      fst (invoke sample_world (json_request (PDict timed_request_body)) Map.empty) = Inr (body, 200) \<and>
      truthy (timestamps_of timed_request_body) \<and>
      body_get body ''timestamps'' = Some (PDict [(''word'', PList ws)]) \<and>
      (\<forall>y \<in> set ws. \<exists>a b c. y = PDict [(''word'', a), (''start'', b), (''end'', c)])) \<and>
   (\<exists>result raw.
      fst (predict_fn sample_world (PDict timed_request_body) Map.empty) = Inr (PDict result) \<and>
      map_of result ''error'' = None \<and> map_of result ''timestamps'' = Some raw)"
proof -
  have t: "truthy (timestamps_of timed_request_body)"
    by (simp add: timestamps_of_def timed_request_body_def)
  have j: "get_json (json_request (PDict timed_request_body)) = Inr (PDict timed_request_body)"
    by (simp add: json_request_def)
  note inst = timestamps_in_response [where w = sample_world
      and req = "json_request (PDict timed_request_body)" and d = Map.empty
      and kvs = timed_request_body]
  have one: "\<exists>body ws.
      fst (invoke sample_world (json_request (PDict timed_request_body)) Map.empty) = Inr (body, 200) \<and>
      truthy (timestamps_of timed_request_body) \<and>
      body_get body ''timestamps'' = Some (PDict [(''word'', PList ws)]) \<and>
      (\<forall>y \<in> set ws. \<exists>a b c. y = PDict [(''word'', a), (''start'', b), (''end'', c)])"
    using inst[THEN conjunct1, rule_format, OF conjI, OF invoke_sample_timestamps j,
        THEN conjunct2, rule_format, OF t] invoke_sample_timestamps t
    by blast
  have e: "map_of [(''text'', PStr ''hello world''),
                 (''timestamps'',
                  PDict [(''word'',
                          PList [PObj [(''word'', PStr ''hello''), (''start'', PFloat 0),
                                       (''end'', PFloat (1 / 2))],
                                 PObj [(''word'', PStr ''world''), (''start'', PFloat (1 / 2)),
                                       (''end'', PFloat 1)]])]),
                 (''processing_time'', PFloat (py_round3 (t_end sample_world - t_start sample_world))),
                 (''model'', PStr model_id)] ''error'' = None"
    by simp
  have two: "\<exists>result raw.
      fst (predict_fn sample_world (PDict timed_request_body) Map.empty) = Inr (PDict result) \<and>
      map_of result ''error'' = None \<and> map_of result ''timestamps'' = Some raw"
    using inst[THEN conjunct2, rule_format, OF conjI, OF predict_sample_timestamps e,
        THEN conjunct2, rule_format, OF t] predict_sample_timestamps e
    by blast
  from one two show ?thesis by blast
qed

text \<open>
  Claim C2 as stated fails in \<^verbatim>\<open>predict_fn\<close>: with a model whose result has a
  \<^verbatim>\<open>timestamp\<close> attribute that is \<^verbatim>\<open>None\<close>, a request with \<^verbatim>\<open>timestamps\<close> true is
  answered successfully and the \<^verbatim>\<open>timestamps\<close> value of the response is \<^verbatim>\<open>None\<close>, not
  an object with a \<^verbatim>\<open>word\<close> sequence.
\<close>

theorem predict_fn_timestamps_counterexample:
  "predict_fn null_timestamp_world (PDict [(''audio'', PStr ''AAAA''), (''timestamps'', PBool True)])
     Map.empty =
   (Inr (PDict [(''text'', PStr ''hi''),
                (''timestamps'', PNone),
                (''processing_time'', PFloat (py_round3 (t_end sample_world - t_start sample_world))),
                (''model'', PStr model_id)]), Map.empty)"
proof -
  let ?kvs = "[(''audio'', PStr ''AAAA''), (''timestamps'', PBool True)]"
  have a: "audio_of ?kvs = PStr ''AAAA''" and t: "timestamps_of ?kvs = PBool True"
    by (simp_all add: audio_of_def timestamps_of_def)
  have wt: "write_temp null_timestamp_world Map.empty [0, 0, 0] =
      (None, Some (tmp_name sample_world), [tmp_name sample_world \<mapsto> [0, 0, 0]])"
    by (simp add: write_temp_def null_timestamp_world_def sample_world_def)
  have n: "tmp_name sample_world \<noteq> []" "tmp_name null_timestamp_world = tmp_name sample_world"
    "t_end null_timestamp_world = t_end sample_world"
    "t_start null_timestamp_world = t_start sample_world"
    by (simp_all add: null_timestamp_world_def sample_world_def)
  have tw: "predict_result null_timestamp_world [tmp_name sample_world \<mapsto> [0, 0, 0]]
              (tmp_name sample_world) (PBool True) =
            Inr [(''text'', PStr ''hi''), (''timestamps'', PNone)]"
    by (simp add: predict_result_def null_timestamp_world_def)
  show ?thesis
    by (simp add: predict_fn_def predict_try_dict a t load_audio_AAAA
        predict_transcribe_cases wt tw finish_result_timestamps n unlink_def
        sample_unlink_err)
qed
section \<open>Exceptions\<close>

lemma invoke_total: "\<exists>resp. fst (invoke w req d) = Inr resp"
  by (cases "fst (invoke_try w req d)") (simp_all add: invoke_fst)

lemma invoke_try_raised:
  "fst (invoke_try w req d) = Inl e \<Longrightarrow>
   fst (invoke w req d) = Inr (PDict [(''error'', PStr (str_exn e))], 500)"
  by (simp add: invoke_fst)

lemma predict_fn_fst_eq:
  "unlink_err w = None \<Longrightarrow>
   fst (predict_fn w input_data d) =
     (case fst (predict_try w input_data d) of
        Inl e \<Rightarrow> Inr (PDict [(''error'', PStr (str_exn e))])
      | Inr result \<Rightarrow> Inr result)"
  by (cases "predict_try w input_data d")
     (auto simp add: predict_fn_def Let_def unlink_def split: sum.splits option.splits)

lemma transcribe_result_raised:
  "transcribe w d p (truthy ts) = Inl e \<Longrightarrow> transcribe_result w d p ts = Inl e"
  by (cases "truthy ts") (simp_all add: transcribe_result_def)

lemma predict_result_raised:
  "transcribe w d p (truthy ts) = Inl e \<Longrightarrow> predict_result w d p ts = Inl e"
  by (cases "truthy ts") (simp_all add: predict_result_def)

lemma process_audio_raised: "load_audio f d a = Inl e \<Longrightarrow> process_audio f d a = None"
  by (simp add: process_audio_def)

text \<open>
  \<^verbatim>\<open>invoke\<close> lets no exception out: it always returns a response, and whatever the
  \<^verbatim>\<open>try\<close> block raises becomes \<^verbatim>\<open>{"error": str(e)}\<close> with status 500. For a request
  with a JSON object body and a truthy \<^verbatim>\<open>audio\<close> field: an exception while decoding the
  audio gives \<^verbatim>\<open>{"error": "Failed to process audio data"}\<close> with status 400; an exception
  while creating, writing or closing the temporary file, and an exception of the model
  call, give \<^verbatim>\<open>{"error": str(e)}\<close> with status 500. A failing \<^verbatim>\<open>os.unlink\<close> is swallowed
  by the guard in the \<^verbatim>\<open>finally\<close> clause.
\<close>

lemma invoke_exceptions:
  "(\<exists>resp. fst (invoke w req d) = Inr resp) \<and>
   (\<forall>e. fst (invoke_try w req d) = Inl e \<longrightarrow>
        fst (invoke w req d) = Inr (PDict [(''error'', PStr (str_exn e))], 500)) \<and>
   (content_type req = Some ''application/json'' \<and> get_json req = Inr (PDict kvs) \<and>
    truthy (audio_of kvs) \<longrightarrow>
      (\<forall>e. load_audio (fetch w) d (audio_of kvs) = Inl e \<longrightarrow>
           fst (invoke w req d) =
             Inr (PDict [(''error'', PStr ''Failed to process audio data'')], 400)) \<and>
      (\<forall>audio e tf d'. process_audio (fetch w) d (audio_of kvs) = Some audio \<and>
           write_temp w d audio = (Some e, tf, d') \<longrightarrow>
           fst (invoke w req d) = Inr (PDict [(''error'', PStr (str_exn e))], 500)) \<and>
      (\<forall>audio e tf d'. process_audio (fetch w) d (audio_of kvs) = Some audio \<and>
           write_temp w d audio = (None, tf, d') \<and>
           transcribe w d' (tmp_name w) (truthy (timestamps_of kvs)) = Inl e \<longrightarrow>
           fst (invoke w req d) = Inr (PDict [(''error'', PStr (str_exn e))], 500)))"
proof -
  have serve: "fst (invoke w req d) = Inr (PDict [(''error'', PStr ''Failed to process audio data'')], 400)"
    if "content_type req = Some ''application/json''" "get_json req = Inr (PDict kvs)"
       "truthy (audio_of kvs)" "load_audio (fetch w) d (audio_of kvs) = Inl e" for e
    using that(3) process_audio_raised[OF that(4)]
    by (simp add: invoke_fst invoke_try_json[OF that(1,2)])
  have serve_write: "fst (invoke w req d) = Inr (PDict [(''error'', PStr (str_exn e))], 500)"
    if "content_type req = Some ''application/json''" "get_json req = Inr (PDict kvs)"
       "truthy (audio_of kvs)" "process_audio (fetch w) d (audio_of kvs) = Some audio"
       "write_temp w d audio = (Some e, tf, d')" for audio e tf d'
    using that(3,4,5)
    by (simp add: invoke_fst invoke_try_json[OF that(1,2)] invoke_transcribe_cases)
  have serve_model: "fst (invoke w req d) = Inr (PDict [(''error'', PStr (str_exn e))], 500)"
    if "content_type req = Some ''application/json''" "get_json req = Inr (PDict kvs)"
       "truthy (audio_of kvs)" "process_audio (fetch w) d (audio_of kvs) = Some audio"
       "write_temp w d audio = (None, tf, d')"
       "transcribe w d' (tmp_name w) (truthy (timestamps_of kvs)) = Inl e" for audio e tf d'
    using that(3,4,5) transcribe_result_raised[OF that(6)]
    by (simp add: invoke_fst invoke_try_json[OF that(1,2)] invoke_transcribe_cases)
  show ?thesis
    using invoke_total[of w req d] invoke_try_raised[of w req d] serve serve_write serve_model
    by simp
qed

text \<open>
  \<^verbatim>\<open>predict_fn\<close> does the same as long as \<^verbatim>\<open>os.unlink\<close> does not raise: it returns a
  dictionary, and whatever the \<^verbatim>\<open>try\<close> block raises becomes \<^verbatim>\<open>{"error": str(e)}\<close>.
\<close>

lemma predict_fn_exceptions:
  assumes "unlink_err w = None"
  shows "(\<exists>result. fst (predict_fn w input_data d) = Inr result) \<and>
   (\<forall>e. fst (predict_try w input_data d) = Inl e \<longrightarrow>
        fst (predict_fn w input_data d) = Inr (PDict [(''error'', PStr (str_exn e))])) \<and>
   (truthy (audio_of kvs) \<longrightarrow>
      (\<forall>e. load_audio (fetch w) d (audio_of kvs) = Inl e \<longrightarrow>
           fst (predict_fn w (PDict kvs) d) = Inr (PDict [(''error'', PStr (str_exn e))])) \<and>
      (\<forall>audio e tf d'. load_audio (fetch w) d (audio_of kvs) = Inr (Some audio) \<and>
           write_temp w d audio = (Some e, tf, d') \<longrightarrow>
           fst (predict_fn w (PDict kvs) d) = Inr (PDict [(''error'', PStr (str_exn e))])) \<and>
      (\<forall>audio e tf d'. load_audio (fetch w) d (audio_of kvs) = Inr (Some audio) \<and>
           write_temp w d audio = (None, tf, d') \<and>
           transcribe w d' (tmp_name w) (truthy (timestamps_of kvs)) = Inl e \<longrightarrow>
           fst (predict_fn w (PDict kvs) d) = Inr (PDict [(''error'', PStr (str_exn e))])))"
proof -
  note eq = predict_fn_fst_eq[OF assms]
  have total: "\<exists>result. fst (predict_fn w input_data d) = Inr result"
    by (cases "fst (predict_try w input_data d)") (simp_all add: eq)
  have toolkit: "fst (predict_fn w (PDict kvs) d) = Inr (PDict [(''error'', PStr (str_exn e))])"
    if "truthy (audio_of kvs)" "load_audio (fetch w) d (audio_of kvs) = Inl e" for e
    using that by (simp add: eq predict_try_dict)
  have toolkit_write: "fst (predict_fn w (PDict kvs) d) = Inr (PDict [(''error'', PStr (str_exn e))])"
    if "truthy (audio_of kvs)" "load_audio (fetch w) d (audio_of kvs) = Inr (Some audio)"
       "write_temp w d audio = (Some e, tf, d')" for audio e tf d'
    using that by (simp add: eq predict_try_dict predict_transcribe_cases)
  have toolkit_model: "fst (predict_fn w (PDict kvs) d) = Inr (PDict [(''error'', PStr (str_exn e))])"
    if "truthy (audio_of kvs)" "load_audio (fetch w) d (audio_of kvs) = Inr (Some audio)"
       "write_temp w d audio = (None, tf, d')"
       "transcribe w d' (tmp_name w) (truthy (timestamps_of kvs)) = Inl e" for audio e tf d'
    using that(1,2,3) predict_result_raised[OF that(4)]
    by (simp add: eq predict_try_dict predict_transcribe_cases)
  show ?thesis
    using total toolkit toolkit_write toolkit_model by (simp add: eq)
qed

lemma load_audio_one_char:
  "load_audio fetch_url d (PStr ''A'') =
     Inl (Exn BinasciiError
       ''Invalid base64-encoded string: number of data characters (1) cannot be 1 more than a multiple of 4'')"
  by (simp add: load_audio_def load_audio_str_def startswith_def
      b64decode_def a2b_base64_def table_a2b_base64_def b64_alphabet_def
      str_nat.simps digit_def)

text \<open>An undecodable audio string and a failing model, each in both handlers.\<close>

lemma exceptions_examples:
  "fst (invoke sample_world (json_request (PDict [(''audio'', PStr ''A'')])) Map.empty) =
     Inr (PDict [(''error'', PStr ''Failed to process audio data'')], 400) \<and>
   fst (predict_fn sample_world (PDict [(''audio'', PStr ''A'')]) Map.empty) =
     Inr (PDict [(''error'', PStr
       ''Invalid base64-encoded string: number of data characters (1) cannot be 1 more than a multiple of 4'')]) \<and>
   fst (invoke failing_model_world (json_request (PDict [(''audio'', PStr ''AAAA'')])) Map.empty) =
     Inr (PDict [(''error'', PStr ''CUDA out of memory'')], 500) \<and>
   fst (predict_fn failing_model_world (PDict [(''audio'', PStr ''AAAA'')]) Map.empty) =
     Inr (PDict [(''error'', PStr ''CUDA out of memory'')])"
  using
    invoke_exceptions [where w = sample_world
      and req = "json_request (PDict [(''audio'', PStr ''A'')])" and d = Map.empty
      and kvs = "[(''audio'', PStr ''A'')]"]
    predict_fn_exceptions [where w = sample_world and d = Map.empty
      and kvs = "[(''audio'', PStr ''A'')]" and input_data = PNone]
    invoke_exceptions [where w = failing_model_world
      and req = "json_request (PDict [(''audio'', PStr ''AAAA'')])" and d = Map.empty
      and kvs = "[(''audio'', PStr ''AAAA'')]"]
    predict_fn_exceptions [where w = failing_model_world and d = Map.empty
      and kvs = "[(''audio'', PStr ''AAAA'')]" and input_data = PNone]
  by (simp add: json_request_def audio_of_def timestamps_of_def load_audio_one_char
      process_audio_AAAA load_audio_AAAA write_temp_def
      failing_model_world_def sample_world_def)

text \<open>
  Claim C5 does not hold for \<^verbatim>\<open>predict_fn\<close>: its \<^verbatim>\<open>finally\<close> clause calls
  \<^verbatim>\<open>os.unlink(temp_file)\<close> with no guard (\<^verbatim>\<open>invoke\<close> wraps the same call in
  \<^verbatim>\<open>try: ... except: pass\<close>). Where the temporary file cannot be removed, the exception
  of \<^verbatim>\<open>os.unlink\<close> leaves \<^verbatim>\<open>predict_fn\<close>: after a successful transcription in place of
  the result, and after a model error in place of the error dictionary. The file stays.
  \<^verbatim>\<open>invoke\<close> answers the same request in the same world with status 200.
\<close>

theorem unlink_failure_leaves_predict_fn:
  "predict_fn locked_tmp_world (PDict [(''audio'', PStr ''AAAA'')]) Map.empty =
     (Inl (Exn OSError (''[Errno 13] Permission denied: '' @ quoted ''/tmp/tmpa1b2c3.wav'')),
      [''/tmp/tmpa1b2c3.wav'' \<mapsto> [0, 0, 0]]) \<and>
   predict_fn locked_failing_world (PDict [(''audio'', PStr ''AAAA'')]) Map.empty =
     (Inl (Exn OSError (''[Errno 13] Permission denied: '' @ quoted ''/tmp/tmpa1b2c3.wav'')),
      [''/tmp/tmpa1b2c3.wav'' \<mapsto> [0, 0, 0]]) \<and>
   fst (invoke locked_tmp_world (json_request (PDict [(''audio'', PStr ''AAAA'')])) Map.empty) =
     Inr (PDict [(''text'', PStr ''hello world''),
                 (''processing_time'', PFloat 2),
                 (''model'', PStr ''nvidia/parakeet-tdt-0.6b-v2'')], 200)"
proof -
  let ?kvs = "[(''audio'', PStr ''AAAA'')]"
  let ?d = "[''/tmp/tmpa1b2c3.wav'' \<mapsto> [0 :: byte, 0, 0]]"
  have h1: "content_type (json_request (PDict ?kvs)) = Some ''application/json''"
    and h2: "get_json (json_request (PDict ?kvs)) = Inr (PDict ?kvs)"
    by (simp_all add: json_request_def)
  have a: "audio_of ?kvs = PStr ''AAAA''" and t: "timestamps_of ?kvs = PBool False"
    by (simp_all add: audio_of_def timestamps_of_def)
  have wt: "write_temp locked_tmp_world Map.empty [0, 0, 0] =
      (None, Some ''/tmp/tmpa1b2c3.wav'', ?d)"
    "write_temp locked_failing_world Map.empty [0, 0, 0] =
      (None, Some ''/tmp/tmpa1b2c3.wav'', ?d)"
    by (simp_all add: write_temp_def locked_failing_world_def locked_tmp_world_def
        sample_world_def)
  have ul: "unlink locked_tmp_world ?d ''/tmp/tmpa1b2c3.wav'' =
      Inl (Exn OSError (''[Errno 13] Permission denied: '' @ quoted ''/tmp/tmpa1b2c3.wav''))"
    "unlink locked_failing_world ?d ''/tmp/tmpa1b2c3.wav'' =
      Inl (Exn OSError (''[Errno 13] Permission denied: '' @ quoted ''/tmp/tmpa1b2c3.wav''))"
    by (simp_all add: unlink_def locked_failing_world_def locked_tmp_world_def sample_world_def)
  have p1: "predict_fn locked_tmp_world (PDict ?kvs) Map.empty =
     (Inl (Exn OSError (''[Errno 13] Permission denied: '' @ quoted ''/tmp/tmpa1b2c3.wav'')), ?d)"
    by (simp add: predict_fn_def predict_try_dict a t load_audio_AAAA
        predict_transcribe_cases wt ul split: sum.splits)
  have p2: "predict_fn locked_failing_world (PDict ?kvs) Map.empty =
     (Inl (Exn OSError (''[Errno 13] Permission denied: '' @ quoted ''/tmp/tmpa1b2c3.wav'')), ?d)"
    by (simp add: predict_fn_def predict_try_dict a t load_audio_AAAA
        predict_transcribe_cases wt ul split: sum.splits)
  have r: "py_round3 2 = 2"
    by (simp add: py_round3_def round_half_even_def)
  have tr: "transcribe_result locked_tmp_world ?d (tmp_name locked_tmp_world) (PBool False) =
      Inr [(''text'', PStr ''hello world'')]"
    by (simp add: transcribe_result_def locked_tmp_world_def sample_world_def sample_output_def)
  have ck: "t_end locked_tmp_world - t_start locked_tmp_world = 2"
    by (simp add: locked_tmp_world_def sample_world_def)
  have i: "fst (invoke locked_tmp_world (json_request (PDict ?kvs)) Map.empty) =
     Inr (PDict [(''text'', PStr ''hello world''),
                 (''processing_time'', PFloat 2),
                 (''model'', PStr ''nvidia/parakeet-tdt-0.6b-v2'')], 200)"
    by (simp add: invoke_fst invoke_try_json[OF h1 h2] a t process_audio_AAAA
        invoke_transcribe_cases wt tr finish_result_plain model_id_def ck r)
  from p1 p2 i show ?thesis by simp
qed
section \<open>The temporary file after the request\<close>

lemma write_temp_assigned:
  "write_temp w d audio = (err, Some name, d') \<Longrightarrow> name = tmp_name w \<and> d' name \<noteq> None"
  by (auto simp add: write_temp_def split: option.splits if_splits)

lemma invoke_finally_removes:
  "unlink_err w = None \<Longrightarrow> name \<noteq> [] \<Longrightarrow> invoke_finally w (Some name) d name = None"
  by (simp add: invoke_finally_def unlink_def)

lemma invoke_transcribe_keeps:
  "write_temp w d audio = (err, tf, d') \<Longrightarrow>
   snd (invoke_transcribe w d ts audio) = (tf, d')"
  by (simp add: invoke_transcribe_cases split: option.splits sum.splits)

lemma predict_transcribe_keeps:
  "write_temp w d audio = (err, tf, d') \<Longrightarrow>
   snd (predict_transcribe w d ts audio) = (tf, d')"
  by (simp add: predict_transcribe_cases split: option.splits sum.splits)

lemma invoke_snd:
  "snd (invoke w req d) =
     invoke_finally w (fst (snd (invoke_try w req d))) (snd (snd (invoke_try w req d)))"
  by (cases "invoke_try w req d") (simp add: invoke_def)

lemma predict_fn_snd:
  "snd (predict_fn w input_data d) =
     invoke_finally w (fst (snd (predict_try w input_data d))) (snd (snd (predict_try w input_data d)))"
  by (cases "predict_try w input_data d")
     (auto simp add: predict_fn_def invoke_finally_def Let_def split: option.splits sum.splits)

text \<open>
  Once the variable \<^verbatim>\<open>temp_file\<close> has been assigned, the file is gone when the handler
  returns, whether the model call succeeded or raised, provided \<^verbatim>\<open>os.unlink\<close> itself
  does not fail.
\<close>

lemma temp_file_removed_when_assigned:
  assumes "content_type req = Some ''application/json''"
    and "get_json req = Inr (PDict kvs)"
    and "truthy (audio_of kvs)"
    and "process_audio (fetch w) d (audio_of kvs) = Some audio"
    and "write_temp w d audio = (err, Some name, d')"
    and "name \<noteq> []"
    and "unlink_err w = None"
  shows "snd (invoke w req d) name = None"
  using assms(3,4,6,7) invoke_transcribe_keeps[OF assms(5)]
  by (simp add: invoke_snd invoke_try_json[OF assms(1,2)] invoke_finally_removes)

lemma temp_file_removed_when_assigned_predict:
  assumes "truthy (audio_of kvs)"
    and "load_audio (fetch w) d (audio_of kvs) = Inr (Some audio)"
    and "write_temp w d audio = (err, Some name, d')"
    and "name \<noteq> []"
    and "unlink_err w = None"
  shows "snd (predict_fn w (PDict kvs) d) name = None"
  using assms(1,2,4,5) predict_transcribe_keeps[OF assms(3)]
  by (simp add: predict_fn_snd predict_try_dict invoke_finally_removes)

text \<open>
  A payload that fits the file object's buffer: on a full disk the write is noticed by
  the flush on leaving the \<^verbatim>\<open>with\<close> block, the variable is assigned by then, and the
  file is removed.
\<close>

lemma short_payload_removed_on_full_disk:
  "invoke full_disk_world (json_request (PDict [(''audio'', PStr ''AAAA'')])) Map.empty =
     (Inr (PDict [(''error'', PStr ''[Errno 28] No space left on device'')], 500), Map.empty) \<and>
   predict_fn full_disk_world (PDict [(''audio'', PStr ''AAAA'')]) Map.empty =
     (Inr (PDict [(''error'', PStr ''[Errno 28] No space left on device'')]), Map.empty)"
proof -
  let ?kvs = "[(''audio'', PStr ''AAAA'')]"
  have h1: "content_type (json_request (PDict ?kvs)) = Some ''application/json''"
    and h2: "get_json (json_request (PDict ?kvs)) = Inr (PDict ?kvs)"
    by (simp_all add: json_request_def)
  have a: "audio_of ?kvs = PStr ''AAAA''" by (simp add: audio_of_def)
  have wt: "write_temp full_disk_world Map.empty [0, 0, 0] =
      (Some (Exn OSError ''[Errno 28] No space left on device''), Some ''/tmp/tmpa1b2c3.wav'',
       [''/tmp/tmpa1b2c3.wav'' \<mapsto> []])"
    by (simp add: write_temp_def full_disk_world_def sample_world_def)
  have i: "invoke full_disk_world (json_request (PDict ?kvs)) Map.empty =
     (Inr (PDict [(''error'', PStr ''[Errno 28] No space left on device'')], 500), Map.empty)"
    by (simp add: invoke_def invoke_try_json[OF h1 h2] a process_audio_AAAA
        invoke_transcribe_cases wt error_response_eq invoke_finally_def unlink_def
        sample_unlink_err)
  have p: "predict_fn full_disk_world (PDict ?kvs) Map.empty =
     (Inr (PDict [(''error'', PStr ''[Errno 28] No space left on device'')]), Map.empty)"
    by (simp add: predict_fn_def predict_try_dict a load_audio_AAAA
        predict_transcribe_cases wt unlink_def sample_unlink_err)
  from i p show ?thesis by simp
qed

lemma long_audio_length: "length long_audio = 1048576"
  by (simp add: long_audio_def)

lemma load_long_audio:
  "load_audio fetch_url d (audio_of long_audio_body) = Inr (Some long_audio)"
  by (simp add: long_audio_body_def audio_of_def load_audio_def load_audio_data_bare)

text \<open>
  Claim C4 does not hold when \<^verbatim>\<open>f.write(audio_data)\<close> raises: the file was created
  with \<^verbatim>\<open>delete=False\<close>, the variable \<^verbatim>\<open>temp_file\<close> is assigned only after the write,
  so the \<^verbatim>\<open>finally\<close> clause finds it unset and removes nothing. That is the case for
  a payload longer than the file object's buffer on a full disk: for one mebibyte of
  audio, sent as \<^verbatim>\<open>{"audio": {"data": <base64>}}\<close>, the request is answered with the
  error and the file stays, in \<^verbatim>\<open>invoke\<close> and in \<^verbatim>\<open>predict_fn\<close>.
\<close>

theorem temp_file_left_after_failed_write:
  "invoke full_disk_world (json_request (PDict long_audio_body)) Map.empty =
     (Inr (PDict [(''error'', PStr ''[Errno 28] No space left on device'')], 500),
      [''/tmp/tmpa1b2c3.wav'' \<mapsto> []]) \<and>
   predict_fn full_disk_world (PDict long_audio_body) Map.empty =
     (Inr (PDict [(''error'', PStr ''[Errno 28] No space left on device'')]),
      [''/tmp/tmpa1b2c3.wav'' \<mapsto> []])"
proof -
  have h1: "content_type (json_request (PDict long_audio_body)) = Some ''application/json''"
    and h2: "get_json (json_request (PDict long_audio_body)) = Inr (PDict long_audio_body)"
    by (simp_all add: json_request_def)
  have a: "truthy (audio_of long_audio_body)"
    by (simp add: audio_of_def long_audio_body_def)
  have pa: "process_audio (fetch full_disk_world) Map.empty (audio_of long_audio_body) =
      Some long_audio"
    by (simp add: process_audio_def load_long_audio)
  have wt: "write_temp full_disk_world Map.empty long_audio =
      (Some (Exn OSError ''[Errno 28] No space left on device''), None, [''/tmp/tmpa1b2c3.wav'' \<mapsto> []])"
    by (simp add: write_temp_def full_disk_world_def sample_world_def long_audio_length)
  have i: "invoke full_disk_world (json_request (PDict long_audio_body)) Map.empty =
     (Inr (PDict [(''error'', PStr ''[Errno 28] No space left on device'')], 500),
      [''/tmp/tmpa1b2c3.wav'' \<mapsto> []])"
    using a pa
    by (simp add: invoke_def invoke_try_json[OF h1 h2]
        invoke_transcribe_cases wt error_response_eq invoke_finally_def)
  have p: "predict_fn full_disk_world (PDict long_audio_body) Map.empty =
     (Inr (PDict [(''error'', PStr ''[Errno 28] No space left on device'')]),
      [''/tmp/tmpa1b2c3.wav'' \<mapsto> []])"
    using a
    by (simp add: predict_fn_def predict_try_dict load_long_audio
        predict_transcribe_cases wt)
  from i p show ?thesis by simp
qed
section \<open>Resource names\<close>

lemma digit_is_digit: "is_digit (digit n)"
  unfolding is_digit_def digit_def by (rule nth_mem) simp

lemma hyphen_not_digit: "\<not> is_digit CHR ''-''"
  by (simp add: is_digit_def)

lemma mask_strftime: "mask (strftime now) = ''dddd-dd-dd-dd-dd-dd''"
  by (simp add: mask_def strftime_def pad2_def pad4_def digit_is_digit hyphen_not_digit)

lemma nth_digits: "k < 10 \<Longrightarrow> of_char (''0123456789'' ! k) = 48 + k"
  by (auto simp add: less_Suc_eq eval_nat_numeral)

lemma digit_value: "of_char (digit n) - 48 = n mod 10"
  by (simp add: digit_def nth_digits)

lemma digits_value_pad2: "n < 100 \<Longrightarrow> digits_value (pad2 n) = n"
  by (simp add: digits_value_def pad2_def digit_value)

lemma digits_value_pad4:
  assumes "n < 10000"
  shows "digits_value (pad4 n) = n"
proof -
  define a where "a = n div 10"
  define b where "b = a div 10"
  define c where "c = b div 10"
  have b: "n div 100 = b" and c: "n div 1000 = c"
    by (simp_all add: a_def b_def c_def div_mult2_eq)
  have "c < 10" using assms unfolding c[symmetric] by simp
  then have c10: "c mod 10 = c" by simp
  have 1: "10 * c + b mod 10 = b" by (simp add: c_def)
  have 2: "10 * b + a mod 10 = a" by (simp add: b_def)
  have 3: "10 * a + n mod 10 = n" by (simp add: a_def)
  have "digits_value (pad4 n) = 10 * (10 * (10 * (c mod 10) + b mod 10) + a mod 10) + n mod 10"
    by (simp add: digits_value_def pad4_def digit_value b c a_def)
  then show ?thesis by (simp only: c10 1 2 3)
qed

lemma read_timestamp_strftime:
  assumes "year now < 10000" "month now < 100" "day now < 100" "hour now < 100"
    "minute now < 100" "second now < 100"
  shows "read_timestamp (strftime now) =
    [year now, month now, day now, hour now, minute now, second now]"
proof -
  have "read_timestamp (strftime now) =
     map digits_value [pad4 (year now), pad2 (month now), pad2 (day now), pad2 (hour now),
       pad2 (minute now), pad2 (second now)]"
    by (simp add: read_timestamp_def strftime_def pad2_def pad4_def)
  then show ?thesis using assms by (simp add: digits_value_pad2 digits_value_pad4)
qed

lemma strftime_sample_time: "strftime sample_time = ''2024-01-15-10-30-45''"
  by (simp add: strftime_def sample_time_def pad2_def pad4_def digit_def)

text \<open>
  Claim C9, as the code has it. The three names \<^verbatim>\<open>deploy\<close> generates are
  \<^verbatim>\<open>parakeet-tdt-<timestamp>\<close> for the model, \<^verbatim>\<open>parakeet-config-<timestamp>\<close> for the
  endpoint configuration and \<^verbatim>\<open>parakeet-asr-<timestamp>\<close> for the endpoint: the common
  prefix \<^verbatim>\<open>parakeet\<close>, the tags \<^verbatim>\<open>tdt\<close>, \<^verbatim>\<open>config\<close> and \<^verbatim>\<open>asr\<close>, and one shared
  timestamp, taken once. The timestamp has the form \<^verbatim>\<open>YYYY-MM-DD-HH-MM-SS\<close>: four, two,
  two, two, two and two digits joined by hyphens, which spell the year, month, day, hour,
  minute and second of the creation time.
\<close>

theorem deploy_names_pattern:
  assumes "is_datetime now"
  shows "deploy_names now =
      \<lparr> dep_model_name = ''parakeet-tdt-'' @ strftime now,
        dep_endpoint_config_name = ''parakeet-config-'' @ strftime now,
        dep_endpoint_name = ''parakeet-asr-'' @ strftime now \<rparr> \<and>
    mask (strftime now) = ''dddd-dd-dd-dd-dd-dd'' \<and>
    read_timestamp (strftime now) =
      [year now, month now, day now, hour now, minute now, second now]"
proof -
  have "read_timestamp (strftime now) =
      [year now, month now, day now, hour now, minute now, second now]"
    using assms by (intro read_timestamp_strftime) (simp_all add: is_datetime_def)
  then show ?thesis by (simp add: deploy_names_def Let_def mask_strftime)
qed

text \<open>A deployment on 15 January 2024 at 10:30:45.\<close>

theorem deploy_names_pattern_witness:
  "deploy_names sample_time =
      \<lparr> dep_model_name = ''parakeet-tdt-2024-01-15-10-30-45'',
        dep_endpoint_config_name = ''parakeet-config-2024-01-15-10-30-45'',
        dep_endpoint_name = ''parakeet-asr-2024-01-15-10-30-45'' \<rparr> \<and>
    mask ''2024-01-15-10-30-45'' = ''dddd-dd-dd-dd-dd-dd'' \<and>
    read_timestamp ''2024-01-15-10-30-45'' = [2024, 1, 15, 10, 30, 45]"
proof -
  have "is_datetime sample_time" by (simp add: is_datetime_def sample_time_def)
  from deploy_names_pattern[OF this] show ?thesis
    by (simp add: strftime_sample_time) (simp add: sample_time_def)
qed

text \<open>
  Claim C9 as stated fails on the component tags: the model's name carries the tag
  \<^verbatim>\<open>tdt\<close>, not \<^verbatim>\<open>model\<close>, and the endpoint's name the tag \<^verbatim>\<open>asr\<close>, not \<^verbatim>\<open>endpoint\<close>.
  Whatever the prefix, the model's name does not end in \<^verbatim>\<open>-model-<timestamp>\<close> and the
  endpoint's name does not end in \<^verbatim>\<open>-endpoint-<timestamp>\<close>.
\<close>

theorem deploy_names_tags_counterexample:
  "dep_model_name (deploy_names sample_time) = ''parakeet-tdt-2024-01-15-10-30-45'' \<and>
   dep_endpoint_config_name (deploy_names sample_time) = ''parakeet-config-2024-01-15-10-30-45'' \<and>
   dep_endpoint_name (deploy_names sample_time) = ''parakeet-asr-2024-01-15-10-30-45'' \<and>
   \<not> suffix ''-model-2024-01-15-10-30-45'' (dep_model_name (deploy_names sample_time)) \<and>
   \<not> suffix ''-endpoint-2024-01-15-10-30-45'' (dep_endpoint_name (deploy_names sample_time))"
  by (simp add: deploy_names_def Let_def strftime_sample_time suffix_to_prefix)

section \<open>Cleanup\<close>












end
